theory Spec2Isabelle
  imports Main "HOL-Library.Word" "HOL-Library.Multiset" "HOL-Library.Monad_Syntax"
begin

section \<open>Shared vocabulary of list.c and linked\_list.c\<close>

text \<open>
  Both containers store size-tagged byte blobs. A \<open>void*\<close> handed in by a caller, or
  held by an element, is modelled by the bytes it points to (\<open>None\<close> for \<open>NULL\<close>);
  \<open>uint64_t\<close> sizes are naturals; the \<open>int64_t\<close> counters (\<open>size\<close>, \<open>capacity\<close>,
  indices) are integers, none of the arithmetic below leaves the 64-bit range for a
  container that fits in memory.

  A function of the model returns \<open>option\<close> when the C function can leave defined
  behaviour; \<open>None\<close> is a run that does: a \<open>NULL\<close>, uninitialised or freed pointer is
  dereferenced or tested, a slot outside the item buffer is read or written, memory
  is written after it was freed, or the function ends without a \<open>return\<close>. One
  function of the linked list, \<open>free_previous_tail\<close>, also has it for a run that
  returns with a freed node linked into the list (see there).
\<close>

type_synonym byte = "8 word"

text \<open>The two result enums have the same six members with the same values.\<close>

datatype list_result =
    LIST_SUCCESS
  | LIST_INDEX_OUT_OF_RANGE_ERROR
  | LIST_ELEMENT_NOT_FOUND_ERROR
  | LIST_NULL_ERROR
  | LIST_INVALID_PARAMS_ERROR
  | LIST_ALLOCATION_FAILURE

text \<open>\<open>struct list_element\<close> and \<open>struct linked_list_element\<close>: a size and a value pointer.\<close>

record list_element =
  e_size :: nat
  e_value :: "byte list option"

text \<open>
  \<open>malloc\<close>, \<open>calloc\<close> and \<open>realloc\<close> may fail. The allocator is the list of the
  outcomes of the calls still to come (\<open>True\<close>: the call returns memory); once the list
  is used up every call succeeds.
\<close>

type_synonym allocator = "bool list"

fun malloc :: "allocator \<Rightarrow> bool \<times> allocator" where
  "malloc [] = (True, [])"
| "malloc (ok # rest) = (ok, rest)"

text \<open>
  \<open>memcpy(dst, src, n)\<close> out of a caller's buffer: the first \<open>n\<close> bytes. The caller
  owes a buffer of at least \<open>n\<close> bytes.
\<close>

definition memcpy :: "byte list \<Rightarrow> nat \<Rightarrow> byte list" where
  "memcpy src n = take n src"

text \<open>
  \<open>memcmp\<close>: C fixes only the sign of the result; the usual C libraries return the
  difference of the first pair of bytes that differ, read as \<open>unsigned char\<close>, and so
  does the model. Comparison stops at the end of the shorter buffer (reading on is
  undefined in C).
\<close>

fun memcmp :: "byte list \<Rightarrow> byte list \<Rightarrow> nat \<Rightarrow> int" where
  "memcmp (a # as) (b # bs) (Suc n) =
     (if a = b then memcmp as bs n else int (unat a) - int (unat b))"
| "memcmp _ _ _ = 0"

text \<open>
  A custom equality function, \<open>int32_t f(const void*, const void*, uint64_t)\<close>.
  The \<open>int32_t\<close> result is an integer.
\<close>

type_synonym equality_function = "byte list option \<Rightarrow> byte list option \<Rightarrow> nat \<Rightarrow> int"

text \<open>\<open>default_equals\<close>, the same function in both files.\<close>

definition default_equals :: equality_function where
  "default_equals data1 data2 n =
     (case (data1, data2) of
        (None, Some _) \<Rightarrow> -1
      | (Some _, None) \<Rightarrow> 1
      | (None, None) \<Rightarrow> 0
      | (Some d1, Some d2) \<Rightarrow> memcmp d1 d2 n)"


section \<open>list.c: the array list\<close>

subsection \<open>Element pointers and the memory they point into\<close>

text \<open>
  The item buffer of the array list holds pointers to element structs, and the list
  copies these pointers from slot to slot: two slots can hold the same pointer, and
  \<open>list_element_set\<close> changes the element behind it for both. So the element structs
  live in a store, and a slot holds \<open>NULL\<close>, the address of a struct in the store, or
  what uninitialised memory holds. An uninitialised pointer can be copied;
  dereferencing it, or comparing it with \<open>NULL\<close>, has no defined outcome.
\<close>

datatype pointer = NULL | Ptr nat | Uninitialised

text \<open>
  The memory: the outcomes of the allocations still to come, and the element structs
  allocated so far, \<open>Ptr a\<close> being the \<open>a\<close>-th of them. A struct that is released or
  lost before the function that allocated it returns is not entered. No struct ever
  leaves the store: \<open>list_element_free\<close>, the only function that frees one, does not
  return from doing so (see there).
\<close>

record memory =
  m_outcomes :: allocator
  m_elements :: "list_element list"

text \<open>A call of \<open>malloc\<close>, \<open>calloc\<close> or \<open>realloc\<close>.\<close>

definition allocate :: "memory \<Rightarrow> bool \<times> memory" where
  "allocate m = (case malloc (m_outcomes m) of (ok, rest) \<Rightarrow> (ok, m\<lparr>m_outcomes := rest\<rparr>))"

text \<open>The address of a struct that has just been allocated and filled in.\<close>

definition new_element :: "memory \<Rightarrow> list_element \<Rightarrow> pointer \<times> memory" where
  "new_element m e = (Ptr (length (m_elements m)), m\<lparr>m_elements := m_elements m @ [e]\<rparr>)"

text \<open>\<open>*p\<close> for an element pointer \<open>p\<close>, read and written.\<close>

definition element_at :: "memory \<Rightarrow> pointer \<Rightarrow> list_element option" where
  "element_at m p =
     (case p of
        Ptr a \<Rightarrow> if a < length (m_elements m) then Some (m_elements m ! a) else None
      | _ \<Rightarrow> None)"

definition store_element :: "memory \<Rightarrow> pointer \<Rightarrow> list_element \<Rightarrow> memory option" where
  "store_element m p e =
     (case p of
        Ptr a \<Rightarrow> if a < length (m_elements m)
                 then Some (m\<lparr>m_elements := (m_elements m)[a := e]\<rparr>) else None
      | _ \<Rightarrow> None)"

text \<open>\<open>p == NULL\<close>.\<close>

definition is_NULL :: "pointer \<Rightarrow> bool option" where
  "is_NULL p = (case p of NULL \<Rightarrow> Some True | Ptr _ \<Rightarrow> Some False | Uninitialised \<Rightarrow> None)"

subsection \<open>Elements\<close>

text \<open>
  \<open>list_element_create\<close>: the element struct is allocated first, then, for a
  non-\<open>NULL\<close> value, the buffer; when the buffer cannot be allocated the struct is
  freed. The second component of the result is what was written to \<open>*elementOut\<close>,
  \<open>None\<close> when nothing was.
\<close>

definition list_element_create ::
  "memory \<Rightarrow> byte list option \<Rightarrow> nat \<Rightarrow> (list_result \<times> pointer option) \<times> memory" where
  "list_element_create m v n =
     (case allocate m of
        (False, m1) \<Rightarrow> ((LIST_ALLOCATION_FAILURE, None), m1)
      | (True, m1) \<Rightarrow>
          (case v of
             None \<Rightarrow>
               (case new_element m1 \<lparr>e_size = n, e_value = None\<rparr> of
                  (element, m2) \<Rightarrow> ((LIST_SUCCESS, Some element), m2))
           | Some src \<Rightarrow>
               (case allocate m1 of
                  (False, m2) \<Rightarrow> ((LIST_ALLOCATION_FAILURE, None), m2)
                | (True, m2) \<Rightarrow>
                    (case new_element m2 \<lparr>e_size = n, e_value = Some (memcpy src n)\<rparr> of
                       (element, m3) \<Rightarrow> ((LIST_SUCCESS, Some element), m3)))))"

text \<open>
  \<open>list_element_set\<close> changes the struct in place. The buffer is reallocated only
  when the size changes; an element whose buffer could not be reallocated keeps the
  new size and a \<open>NULL\<close> value. \<open>memcpy\<close> into a \<open>NULL\<close> buffer (same size, valueless
  element) or out of a \<open>NULL\<close> value is undefined.
\<close>

definition list_element_set ::
  "memory \<Rightarrow> pointer \<Rightarrow> byte list option \<Rightarrow> nat \<Rightarrow> (list_result \<times> memory) option" where
  "list_element_set m p v n =
     do {
       element \<leftarrow> element_at m p;
       if n \<noteq> e_size element then
         (case allocate m of
            (False, m1) \<Rightarrow>
              do {
                m2 \<leftarrow> store_element m1 p \<lparr>e_size = n, e_value = None\<rparr>;
                Some (LIST_ALLOCATION_FAILURE, m2)
              }
          | (True, m1) \<Rightarrow>
              (case v of
                 None \<Rightarrow> None
               | Some src \<Rightarrow>
                   do {
                     m2 \<leftarrow> store_element m1 p \<lparr>e_size = n, e_value = Some (memcpy src n)\<rparr>;
                     Some (LIST_SUCCESS, m2)
                   }))
       else
         (case (e_value element, v) of
            (Some _, Some src) \<Rightarrow>
              do {
                m1 \<leftarrow> store_element m p \<lparr>e_size = n, e_value = Some (memcpy src n)\<rparr>;
                Some (LIST_SUCCESS, m1)
              }
          | _ \<Rightarrow> None)
     }"

text \<open>
  \<open>list_element_clone\<close> allocates the struct of the clone, then reads
  \<open>element->size\<close>. When the buffer of the clone cannot be allocated it returns
  without a write to \<open>*elementOut\<close> (and without freeing the struct).
\<close>

definition list_element_clone ::
  "memory \<Rightarrow> pointer \<Rightarrow> ((list_result \<times> pointer option) \<times> memory) option" where
  "list_element_clone m p =
     (case allocate m of
        (False, m1) \<Rightarrow> Some ((LIST_ALLOCATION_FAILURE, None), m1)
      | (True, m1) \<Rightarrow>
          do {
            element \<leftarrow> element_at m1 p;
            case e_value element of
              None \<Rightarrow>
                (case new_element m1 \<lparr>e_size = e_size element, e_value = None\<rparr> of
                   (elementClone, m2) \<Rightarrow> Some ((LIST_SUCCESS, Some elementClone), m2))
            | Some bytes \<Rightarrow>
                (case allocate m1 of
                   (False, m2) \<Rightarrow> Some ((LIST_ALLOCATION_FAILURE, None), m2)
                 | (True, m2) \<Rightarrow>
                     (case new_element m2
                             \<lparr>e_size = e_size element,
                              e_value = Some (memcpy bytes (e_size element))\<rparr> of
                        (elementClone, m3) \<Rightarrow> Some ((LIST_SUCCESS, Some elementClone), m3)))
          })"

text \<open>
  \<open>list_element_free(&slot)\<close>, given what the slot holds. A \<open>NULL\<close> slot is refused
  and left as it is. For any other the function frees the buffer and the struct and
  then writes \<open>->value\<close>, \<open>->size\<close> through the pointer it has just freed:
  \<^verbatim>\<open>free((*element)->value);
free(*element);
(*element)->value = NULL;
(*element)->size = 0;\<close>
  There is no run of it that frees an element and stays within defined behaviour.
  Where it returns, the second component is what the slot holds afterwards.
\<close>

definition list_element_free :: "pointer \<Rightarrow> (list_result \<times> pointer) option" where
  "list_element_free slot =
     do {
       null \<leftarrow> is_NULL slot;
       if null then Some (LIST_INVALID_PARAMS_ERROR, slot) else None
     }"

subsection \<open>The list\<close>

text \<open>
  \<open>struct list\<close>. \<open>l_items\<close> is the buffer of element pointers, one entry per
  allocated slot; a \<open>NULL\<close> buffer has none. The sorting function pointer is \<open>None\<close>
  when \<open>list_create\<close> installed \<open>default_sort\<close>; a custom sorting function is
  given by what it does to the item buffer, given the element structs.
\<close>

record list_t =
  l_size :: int
  l_capacity :: int
  l_items :: "pointer list"
  l_equalityFunction :: equality_function
  l_sortingFunction ::
    "(list_element list \<Rightarrow> pointer list \<Rightarrow> bool \<Rightarrow> list_result \<times> pointer list) option"

definition DEFAULT_LIST_CAPACITY :: int where
  "DEFAULT_LIST_CAPACITY = 8"

text \<open>\<open>items[i]\<close>, read and written: there is no slot \<open>i\<close> outside the buffer.\<close>

definition item :: "pointer list \<Rightarrow> int \<Rightarrow> pointer option" where
  "item items i = (if 0 \<le> i \<and> i < int (length items) then Some (items ! nat i) else None)"

definition set_item :: "pointer list \<Rightarrow> int \<Rightarrow> pointer \<Rightarrow> pointer list option" where
  "set_item items i p =
     (if 0 \<le> i \<and> i < int (length items) then Some (items[nat i := p]) else None)"

text \<open>\<open>*list->items[i]\<close>, the element behind slot \<open>i\<close>.\<close>

definition item_at :: "memory \<Rightarrow> list_t \<Rightarrow> int \<Rightarrow> list_element option" where
  "item_at m l i = do { p \<leftarrow> item (l_items l) i; element_at m p }"

definition list_swap :: "list_t \<Rightarrow> int \<Rightarrow> int \<Rightarrow> (list_result \<times> list_t) option" where
  "list_swap l index1 index2 =
     (if index1 \<ge> l_size l \<or> index1 < 0 then Some (LIST_INDEX_OUT_OF_RANGE_ERROR, l)
      else if index2 \<ge> l_size l \<or> index2 < 0 then Some (LIST_INDEX_OUT_OF_RANGE_ERROR, l)
      else if index1 = index2 then Some (LIST_SUCCESS, l)
      else
        do {
          temp \<leftarrow> item (l_items l) index1;
          other \<leftarrow> item (l_items l) index2;
          items1 \<leftarrow> set_item (l_items l) index1 other;
          items2 \<leftarrow> set_item items1 index2 temp;
          Some (LIST_SUCCESS, l\<lparr>l_items := items2\<rparr>)
        })"

subsection \<open>The default sort: median-of-three quicksort\<close>

text \<open>
  \<open>list->equalityFunction(list->items[a]->value, list->items[b]->value,
  list->items[a]->size)\<close>, as \<open>partition\<close> calls it on two slots.
\<close>

definition compare_slots :: "memory \<Rightarrow> list_t \<Rightarrow> int \<Rightarrow> int \<Rightarrow> int option" where
  "compare_slots m l a b =
     do {
       x \<leftarrow> item_at m l a;
       y \<leftarrow> item_at m l b;
       Some (l_equalityFunction l (e_value x) (e_value y) (e_size x))
     }"

text \<open>
  One of the three conditional swaps of the pivot selection:
  \<open>if (equalityFunction(a, b) > 0) list_swap(list, a, b)\<close> when ascending, \<open>< 0\<close>
  when descending. The result code of \<open>list_swap\<close> is dropped, as in the source.
\<close>

definition swap_if_misordered :: "memory \<Rightarrow> list_t \<Rightarrow> int \<Rightarrow> int \<Rightarrow> bool \<Rightarrow> list_t option" where
  "swap_if_misordered m l a b ascending =
     do {
       c \<leftarrow> compare_slots m l a b;
       if (if ascending then c > 0 else c < 0)
       then map_option snd (list_swap l a b)
       else Some l
     }"

text \<open>The body of \<open>if (high - low + 1 >= 3)\<close> in \<open>partition\<close>.\<close>

definition median_of_three :: "memory \<Rightarrow> list_t \<Rightarrow> int \<Rightarrow> int \<Rightarrow> bool \<Rightarrow> list_t option" where
  "median_of_three m l low high ascending =
     (let mid = low + (high - low) div 2 in
      do {
        l1 \<leftarrow> swap_if_misordered m l low mid ascending;
        l2 \<leftarrow> swap_if_misordered m l1 low high ascending;
        l3 \<leftarrow> swap_if_misordered m l2 mid high ascending;
        map_option snd (list_swap l3 mid (high - 1))
      })"

text \<open>The \<open>for (j = low; j <= high - 2; j++)\<close> loop of \<open>partition\<close>, with its counter \<open>i\<close>.\<close>

function partition_loop ::
  "memory \<Rightarrow> list_t \<Rightarrow> byte list option \<Rightarrow> nat \<Rightarrow> int \<Rightarrow> int \<Rightarrow> int \<Rightarrow> bool
     \<Rightarrow> (int \<times> list_t) option" where
  "partition_loop m l pivot_value pivot_size i j high ascending =
     (if j \<le> high - 2 then
        (case item_at m l j of
           None \<Rightarrow> None
         | Some e \<Rightarrow>
             (let comparison_result = l_equalityFunction l (e_value e) pivot_value pivot_size;
                  condition = (if ascending then comparison_result \<le> 0 else comparison_result \<ge> 0)
              in if condition
                 then (case list_swap l (i + 1) j of
                         None \<Rightarrow> None
                       | Some (_, l1) \<Rightarrow>
                           partition_loop m l1 pivot_value pivot_size (i + 1) (j + 1) high ascending)
                 else partition_loop m l pivot_value pivot_size i (j + 1) high ascending))
      else Some (i, l))"
  by pat_completeness auto
termination
  by (relation "measure (\<lambda>(m, l, pv, ps, i, j, high, asc). nat (high - 1 - j))") auto

definition list_partition :: "memory \<Rightarrow> list_t \<Rightarrow> int \<Rightarrow> int \<Rightarrow> bool \<Rightarrow> (int \<times> list_t) option" where
  "list_partition m l low high ascending =
     do {
       l1 \<leftarrow> (if high - low + 1 \<ge> 3 then median_of_three m l low high ascending else Some l);
       pivot_element \<leftarrow> item_at m l1 (high - 1);
       (i, l2) \<leftarrow> partition_loop m l1 (e_value pivot_element) (e_size pivot_element)
                    (low - 1) low high ascending;
       (_, l3) \<leftarrow> list_swap l2 (i + 1) (high - 1);
       Some (i + 1, l3)
     }"

declare partition_loop.simps [simp del]

lemma partition_loop_bounds:
  "partition_loop m l pv ps i j high ascending = Some (i', l') \<Longrightarrow>
     i \<le> i' \<and> i' \<le> i + max 0 (high - 1 - j)"
proof (induction m l pv ps i j high ascending arbitrary: i' l' rule: partition_loop.induct)
  case (1 m l pv ps i j high ascending)
  note unfold = partition_loop.simps[of m l pv ps i j high ascending]
  show ?case
  proof (cases "j \<le> high - 2")
    case False
    with "1.prems" show ?thesis by (simp add: unfold)
  next
    case True
    from True "1.prems" obtain e where e: "item_at m l j = Some e"
      by (auto simp: unfold split: option.splits)
    let ?c = "l_equalityFunction l (e_value e) pv ps"
    let ?cond = "if ascending then ?c \<le> 0 else ?c \<ge> 0"
    show ?thesis
    proof (cases ?cond)
      case c: True
      from "1.prems" True e c obtain r l1 where swap: "list_swap l (i + 1) j = Some (r, l1)"
        and rest: "partition_loop m l1 pv ps (i + 1) (j + 1) high ascending = Some (i', l')"
        by (auto simp: unfold Let_def split: if_splits option.splits)
      from "1.IH"(1)[OF True e refl refl _ swap refl rest] c
      have "i + 1 \<le> i' \<and> i' \<le> i + 1 + max 0 (high - 1 - (j + 1))" by simp
      with True show ?thesis by auto
    next
      case c: False
      from "1.prems" True e c
      have "partition_loop m l pv ps i (j + 1) high ascending = Some (i', l')"
        by (simp add: unfold Let_def split: if_splits)
      from "1.IH"(2)[OF True e refl refl _ this] c
      have "i \<le> i' \<and> i' \<le> i + max 0 (high - 1 - (j + 1))" by simp
      with True show ?thesis by auto
    qed
  qed
qed

lemma partition_bounds:
  assumes "list_partition m l low high ascending = Some (p, l')" and "low < high"
  shows "low \<le> p \<and> p \<le> high - 1"
proof -
  from assms(1) obtain l1 and pe :: list_element and i l2 where
    loop: "partition_loop m l1 (e_value pe) (e_size pe) (low - 1) low high ascending = Some (i, l2)"
    and p: "p = i + 1"
    by (auto simp: list_partition_def bind_eq_Some_conv split: if_splits)
  from partition_loop_bounds[OF loop] assms(2) p show ?thesis by auto
qed

text \<open>
  \<open>quicksort\<close>. The source keeps the pivot index in an \<open>int32_t\<close>; a list of fewer
  than \<open>2^31\<close> elements is assumed.
\<close>

function quicksort :: "memory \<Rightarrow> list_t \<Rightarrow> int \<Rightarrow> int \<Rightarrow> bool \<Rightarrow> list_t option" where
  "quicksort m l low high ascending =
     (if low < high then
        (case list_partition m l low high ascending of
           None \<Rightarrow> None
         | Some (p, l1) \<Rightarrow>
             (case quicksort m l1 low (p - 1) ascending of
                None \<Rightarrow> None
              | Some l2 \<Rightarrow> quicksort m l2 (p + 1) high ascending))
      else Some l)"
  by pat_completeness auto
termination quicksort
proof (relation "measure (\<lambda>(m, l, low, high, asc). nat (high - low))", goal_cases)
  case 1
  show ?case by simp
next
  case (2 m l low high ascending x2 p l1)
  from 2(2,3) have "list_partition m l low high ascending = Some (p, l1)" by simp
  from partition_bounds[OF this 2(1)] show ?case by simp
next
  case (3 m l low high ascending x2 p l1 l2)
  from 3(2,3) have "list_partition m l low high ascending = Some (p, l1)" by simp
  from partition_bounds[OF this 3(1)] show ?case by simp
qed

declare quicksort.simps [simp del]

definition list_default_sort :: "memory \<Rightarrow> list_t \<Rightarrow> bool \<Rightarrow> (list_result \<times> list_t) option" where
  "list_default_sort m l ascending =
     do {
       l' \<leftarrow> quicksort m l 0 (l_size l - 1) ascending;
       Some (LIST_SUCCESS, l')
     }"


subsection \<open>Construction and growth\<close>

text \<open>
  Every public function starts with \<open>if (list == NULL) return LIST_NULL_ERROR\<close>;
  the functions below are given the list a non-\<open>NULL\<close> handle points to.

  \<open>list_create\<close>: the struct is allocated, then the zeroed buffer (\<open>calloc\<close>).
\<close>

definition list_create ::
  "memory \<Rightarrow> int \<Rightarrow> equality_function option
     \<Rightarrow> (list_element list \<Rightarrow> pointer list \<Rightarrow> bool \<Rightarrow> list_result \<times> pointer list) option
     \<Rightarrow> (list_result \<times> list_t option) \<times> memory" where
  "list_create m capacity customEqualityFunction customSortingFunction =
     (case allocate m of
        (False, m1) \<Rightarrow> ((LIST_ALLOCATION_FAILURE, None), m1)
      | (True, m1) \<Rightarrow>
          (let cap = (if capacity < 1 then DEFAULT_LIST_CAPACITY else capacity) in
           case allocate m1 of
             (False, m2) \<Rightarrow> ((LIST_ALLOCATION_FAILURE, None), m2)
           | (True, m2) \<Rightarrow>
               ((LIST_SUCCESS,
                 Some \<lparr>l_size = 0, l_capacity = cap, l_items = replicate (nat cap) NULL,
                       l_equalityFunction =
                         (case customEqualityFunction of None \<Rightarrow> default_equals | Some f \<Rightarrow> f),
                       l_sortingFunction = customSortingFunction\<rparr>), m2)))"

text \<open>
  The loop of \<open>list_realloc_capacity\<close> over the slots that a smaller capacity drops:
  \<^verbatim>\<open>for (i = oldCapacity - 1; i > capacity - 1; i--) {
    if (list->items[i] != NULL) {
        list_element_t* element = list->items[i];
        list_element_free(&element);
    }
    list->items[i] = NULL;
}\<close>
\<close>

function shrink_loop :: "pointer list \<Rightarrow> int \<Rightarrow> int \<Rightarrow> pointer list option" where
  "shrink_loop items i capacity =
     (if i > capacity - 1 then
        (case item items i of
           None \<Rightarrow> None
         | Some element \<Rightarrow>
             (case is_NULL element of
                None \<Rightarrow> None
              | Some null \<Rightarrow>
                  (case (if null then Some (LIST_SUCCESS, element) else list_element_free element) of
                     None \<Rightarrow> None
                   | Some _ \<Rightarrow>
                       (case set_item items i NULL of
                          None \<Rightarrow> None
                        | Some items1 \<Rightarrow> shrink_loop items1 (i - 1) capacity))))
      else Some items)"
  by pat_completeness auto
termination
  by (relation "measure (\<lambda>(items, i, capacity). nat (i + 1 - capacity))") auto

declare shrink_loop.simps [simp del]

text \<open>
  The loop over the slots that a larger capacity adds,
  \<open>for (i = oldCapacity; i < capacity - 1; i++) list->items[i] = NULL\<close>: it stops one
  slot short of the end.
\<close>

function null_loop :: "pointer list \<Rightarrow> int \<Rightarrow> int \<Rightarrow> pointer list option" where
  "null_loop items i capacity =
     (if i < capacity - 1 then
        (case set_item items i NULL of
           None \<Rightarrow> None
         | Some items1 \<Rightarrow> null_loop items1 (i + 1) capacity)
      else Some items)"
  by pat_completeness auto
termination
  by (relation "measure (\<lambda>(items, i, capacity). nat (capacity - i))") auto

declare null_loop.simps [simp del]

text \<open>
  \<open>list_realloc_capacity\<close>. Shrinking frees the elements of the slots that go and
  lowers \<open>size\<close> to the new capacity. The new capacity is stored, then the buffer is
  reallocated: a failed \<open>realloc\<close> leaves a \<open>NULL\<close> buffer under the new capacity; a
  successful one keeps the slots that fit and adds uninitialised ones, of which the
  loop above sets all but the last to \<open>NULL\<close>.
\<close>

definition list_realloc_capacity ::
  "memory \<Rightarrow> list_t \<Rightarrow> int \<Rightarrow> ((list_result \<times> list_t) \<times> memory) option" where
  "list_realloc_capacity m l capacity =
     (if capacity < 1 then Some ((LIST_INVALID_PARAMS_ERROR, l), m)
      else if capacity = l_capacity l then Some ((LIST_SUCCESS, l), m)
      else
        do {
          l1 \<leftarrow> (if capacity < l_capacity l then
                   do {
                     items \<leftarrow> shrink_loop (l_items l) (l_capacity l - 1) capacity;
                     Some (l\<lparr>l_items := items,
                             l_size := (if l_size l > capacity then capacity else l_size l)\<rparr>)
                   }
                 else Some l);
          let l2 = l1\<lparr>l_capacity := capacity\<rparr>;
          case allocate m of
            (False, m1) \<Rightarrow> Some ((LIST_ALLOCATION_FAILURE, l2\<lparr>l_items := []\<rparr>), m1)
          | (True, m1) \<Rightarrow>
              do {
                let buffer = take (nat capacity) (l_items l2)
                               @ replicate (nat capacity - length (l_items l2)) Uninitialised;
                items \<leftarrow> (if capacity > l_capacity l then null_loop buffer (l_capacity l) capacity
                          else Some buffer);
                Some ((LIST_SUCCESS, l2\<lparr>l_items := items\<rparr>), m1)
              }
        })"

text \<open>
  The start of \<open>list_prepend\<close>, \<open>list_append\<close> and \<open>list_insert\<close>:
  \<^verbatim>\<open>if (list->size == list->capacity) {
    list_result_t result = list_realloc_capacity(list, list->capacity * 2);
    if (result != LIST_SUCCESS) return result;
}\<close>
\<close>

definition grow_if_full :: "memory \<Rightarrow> list_t \<Rightarrow> ((list_result \<times> list_t) \<times> memory) option" where
  "grow_if_full m l =
     (if l_size l = l_capacity l then list_realloc_capacity m l (l_capacity l * 2)
      else Some ((LIST_SUCCESS, l), m))"

definition list_append ::
  "memory \<Rightarrow> list_t \<Rightarrow> byte list option \<Rightarrow> nat \<Rightarrow> ((list_result \<times> list_t) \<times> memory) option" where
  "list_append m l v n =
     do {
       ((result, l1), m1) \<leftarrow> grow_if_full m l;
       if result \<noteq> LIST_SUCCESS then Some ((result, l1), m1)
       else
         (case list_element_create m1 v n of
            ((LIST_SUCCESS, Some element), m2) \<Rightarrow>
              do {
                items \<leftarrow> set_item (l_items l1) (l_size l1) element;
                Some ((LIST_SUCCESS, l1\<lparr>l_items := items, l_size := l_size l1 + 1\<rparr>), m2)
              }
          | ((result, _), m2) \<Rightarrow> Some ((result, l1), m2))
     }"

text \<open>The loop \<open>for (i = size - 1; i >= index; i--) items[i + 1] = items[i]\<close>.\<close>

function shift_right :: "pointer list \<Rightarrow> int \<Rightarrow> int \<Rightarrow> pointer list option" where
  "shift_right items i index =
     (if i \<ge> index then
        (case item items i of
           None \<Rightarrow> None
         | Some p \<Rightarrow>
             (case set_item items (i + 1) p of
                None \<Rightarrow> None
              | Some items1 \<Rightarrow> shift_right items1 (i - 1) index))
      else Some items)"
  by pat_completeness auto
termination
  by (relation "measure (\<lambda>(items, i, index). nat (i + 1 - index))") auto

declare shift_right.simps [simp del]

text \<open>
  \<open>list_insert\<close> passes \<open>&list->items[index]\<close> to \<open>list_element_create\<close>, stores the
  result in \<open>createResult\<close> and never reads it: when the allocation fails the slot
  keeps the pointer the shift left in it, \<open>size\<close> is incremented all the same and
  \<open>LIST_SUCCESS\<close> is returned. (The loop counter of the shift is an \<open>int\<close>; a list of
  fewer than \<open>2^31\<close> elements is assumed.)
\<close>

definition list_insert ::
  "memory \<Rightarrow> list_t \<Rightarrow> int \<Rightarrow> byte list option \<Rightarrow> nat
     \<Rightarrow> ((list_result \<times> list_t) \<times> memory) option" where
  "list_insert m l index v n =
     (if index > l_size l \<or> index < 0 then Some ((LIST_INDEX_OUT_OF_RANGE_ERROR, l), m)
      else
        do {
          ((result, l1), m1) \<leftarrow> grow_if_full m l;
          if result \<noteq> LIST_SUCCESS then Some ((result, l1), m1)
          else
            do {
              shifted \<leftarrow> shift_right (l_items l1) (l_size l1 - 1) index;
              case list_element_create m1 v n of
                ((_, Some element), m2) \<Rightarrow>
                  do {
                    items \<leftarrow> set_item shifted index element;
                    Some ((LIST_SUCCESS, l1\<lparr>l_items := items, l_size := l_size l1 + 1\<rparr>), m2)
                  }
              | ((_, None), m2) \<Rightarrow>
                  Some ((LIST_SUCCESS, l1\<lparr>l_items := shifted, l_size := l_size l1 + 1\<rparr>), m2)
            }
        })"

subsection \<open>Access by index\<close>

text \<open>
  \<open>list_get\<close> returns the result code and what it wrote to \<open>*elementOut\<close>: nothing
  when the index is refused, \<open>NULL\<close> when the clone failed. The list is not changed.
\<close>

definition list_get ::
  "memory \<Rightarrow> list_t \<Rightarrow> int \<Rightarrow> ((list_result \<times> pointer option) \<times> memory) option" where
  "list_get m l index =
     (if index \<ge> l_size l \<or> index < 0 then Some ((LIST_INDEX_OUT_OF_RANGE_ERROR, None), m)
      else
        do {
          p \<leftarrow> item (l_items l) index;
          ((result, element), m1) \<leftarrow> list_element_clone m p;
          if result \<noteq> LIST_SUCCESS then Some ((result, Some NULL), m1)
          else Some ((LIST_SUCCESS, element), m1)
        })"

definition list_set ::
  "memory \<Rightarrow> list_t \<Rightarrow> int \<Rightarrow> byte list option \<Rightarrow> nat
     \<Rightarrow> ((list_result \<times> list_t) \<times> memory) option" where
  "list_set m l index v n =
     (if index \<ge> l_size l \<or> index < 0 then Some ((LIST_INDEX_OUT_OF_RANGE_ERROR, l), m)
      else if n = 0 then Some ((LIST_INVALID_PARAMS_ERROR, l), m)
      else
        do {
          p \<leftarrow> item (l_items l) index;
          null \<leftarrow> is_NULL p;
          if null then
            (case list_element_create m v n of
               ((LIST_SUCCESS, Some element), m1) \<Rightarrow>
                 do {
                   items \<leftarrow> set_item (l_items l) index element;
                   Some ((LIST_SUCCESS, l\<lparr>l_items := items\<rparr>), m1)
                 }
             | ((result, _), m1) \<Rightarrow> Some ((result, l), m1))
          else
            do {
              (result, m1) \<leftarrow> list_element_set m p v n;
              Some ((result, l), m1)
            }
        })"

text \<open>The loop \<open>for (i = index; i < size - 1; i++) items[i] = items[i + 1]\<close>.\<close>

function shift_left :: "pointer list \<Rightarrow> int \<Rightarrow> int \<Rightarrow> pointer list option" where
  "shift_left items i sz =
     (if i < sz - 1 then
        (case item items (i + 1) of
           None \<Rightarrow> None
         | Some p \<Rightarrow>
             (case set_item items i p of
                None \<Rightarrow> None
              | Some items1 \<Rightarrow> shift_left items1 (i + 1) sz))
      else Some items)"
  by pat_completeness auto
termination
  by (relation "measure (\<lambda>(items, i, sz). nat (sz - i))") auto

declare shift_left.simps [simp del]

text \<open>
  \<open>list_remove\<close> and \<open>list_pop\<close> check the index against \<open>capacity\<close>.
  \<open>list_pop\<close> clones the slot before it frees it; the second component of its result
  is what it wrote to \<open>*elementOut\<close>.
\<close>

definition list_remove :: "list_t \<Rightarrow> int \<Rightarrow> (list_result \<times> list_t) option" where
  "list_remove l index =
     (if index \<ge> l_capacity l \<or> index < 0 then Some (LIST_INDEX_OUT_OF_RANGE_ERROR, l)
      else
        do {
          p \<leftarrow> item (l_items l) index;
          (freeResult, slot) \<leftarrow> list_element_free p;
          if freeResult \<noteq> LIST_SUCCESS then Some (freeResult, l)
          else
            do {
              items \<leftarrow> set_item (l_items l) index slot;
              shifted \<leftarrow> shift_left items index (l_size l);
              Some (LIST_SUCCESS, l\<lparr>l_items := shifted, l_size := l_size l - 1\<rparr>)
            }
        })"

definition list_pop ::
  "memory \<Rightarrow> list_t \<Rightarrow> int \<Rightarrow> (((list_result \<times> pointer option) \<times> list_t) \<times> memory) option" where
  "list_pop m l index =
     (if index \<ge> l_capacity l \<or> index < 0
      then Some (((LIST_INDEX_OUT_OF_RANGE_ERROR, None), l), m)
      else
        do {
          p \<leftarrow> item (l_items l) index;
          ((cloneResult, elementOut), m1) \<leftarrow> list_element_clone m p;
          if cloneResult \<noteq> LIST_SUCCESS then Some (((cloneResult, elementOut), l), m1)
          else
            do {
              (freeResult, slot) \<leftarrow> list_element_free p;
              if freeResult \<noteq> LIST_SUCCESS then Some (((freeResult, elementOut), l), m1)
              else
                do {
                  items \<leftarrow> set_item (l_items l) index slot;
                  shifted \<leftarrow> shift_left items index (l_size l);
                  Some (((LIST_SUCCESS, elementOut),
                         l\<lparr>l_items := shifted, l_size := l_size l - 1\<rparr>), m1)
                }
            }
        })"


subsection \<open>Resize, prepend, reverse, clear, fill\<close>



text \<open>
  The loop of \<open>list_reverse\<close>: \<open>start\<close> is slot \<open>i\<close>, \<open>end\<close> is slot
  \<open>size - 1 - i\<close>, for \<open>i\<close> below \<open>mid = size / 2\<close>.
\<close>

function reverse_loop :: "pointer list \<Rightarrow> int \<Rightarrow> int \<Rightarrow> int \<Rightarrow> pointer list option" where
  "reverse_loop items i mid sz =
     (if i < mid then
        (case (item items i, item items (sz - 1 - i)) of
           (Some leftElement, Some rightElement) \<Rightarrow>
             (case set_item items i rightElement of
                None \<Rightarrow> None
              | Some items1 \<Rightarrow>
                  (case set_item items1 (sz - 1 - i) leftElement of
                     None \<Rightarrow> None
                   | Some items2 \<Rightarrow> reverse_loop items2 (i + 1) mid sz))
         | _ \<Rightarrow> None)
      else Some items)"
  by pat_completeness auto
termination
  by (relation "measure (\<lambda>(items, i, mid, sz). nat (mid - i))") auto

declare reverse_loop.simps [simp del]

definition list_reverse :: "list_t \<Rightarrow> (list_result \<times> list_t) option" where
  "list_reverse l =
     do {
       items \<leftarrow> reverse_loop (l_items l) 0 (l_size l div 2) (l_size l);
       Some (LIST_SUCCESS, l\<lparr>l_items := items\<rparr>)
     }"

text \<open>
  The loop of \<open>list_clear\<close>: \<open>list_element_free\<close> on every slot below \<open>size\<close>, its
  result dropped.
\<close>

function clear_loop :: "pointer list \<Rightarrow> int \<Rightarrow> int \<Rightarrow> pointer list option" where
  "clear_loop items i sz =
     (if i < sz then
        (case item items i of
           None \<Rightarrow> None
         | Some p \<Rightarrow>
             (case list_element_free p of
                None \<Rightarrow> None
              | Some (_, slot) \<Rightarrow>
                  (case set_item items i slot of
                     None \<Rightarrow> None
                   | Some items1 \<Rightarrow> clear_loop items1 (i + 1) sz)))
      else Some items)"
  by pat_completeness auto
termination
  by (relation "measure (\<lambda>(items, i, sz). nat (sz - i))") auto

declare clear_loop.simps [simp del]

definition list_clear :: "list_t \<Rightarrow> (list_result \<times> list_t) option" where
  "list_clear l =
     do {
       items \<leftarrow> clear_loop (l_items l) 0 (l_size l);
       Some (LIST_SUCCESS, l\<lparr>l_items := items, l_size := 0\<rparr>)
     }"




subsection \<open>Join, clone, search, sort\<close>

text \<open>
  One of the two copy loops of \<open>list_join\<close>: the elements of slots \<open>i\<close> to
  \<open>size - 1\<close> of the source are cloned into the target buffer from position \<open>k\<close> on.
  \<^verbatim>\<open>list_element_t* element;
list_element_clone(list1->items[i], &element);
*tempJoinListPointer = element;\<close>
  The result of \<open>list_element_clone\<close> is not checked: after a failed allocation the
  local was not written, and the slot receives an uninitialised pointer.
\<close>

function join_copy ::
  "memory \<Rightarrow> list_t \<Rightarrow> int \<Rightarrow> pointer list \<Rightarrow> int
     \<Rightarrow> ((pointer list \<times> int) \<times> memory) option" where
  "join_copy m src i target k =
     (if i < l_size src then
        (case item (l_items src) i of
           None \<Rightarrow> None
         | Some p \<Rightarrow>
             (case list_element_clone m p of
                None \<Rightarrow> None
              | Some ((_, written), m1) \<Rightarrow>
                  (case set_item target k (case written of Some element \<Rightarrow> element
                                           | None \<Rightarrow> Uninitialised) of
                     None \<Rightarrow> None
                   | Some target1 \<Rightarrow> join_copy m1 src (i + 1) target1 (k + 1))))
      else Some ((target, k), m))"
  by pat_completeness auto
termination
  by (relation "measure (\<lambda>(m, src, i, target, k). nat (l_size src - i))") auto

declare join_copy.simps [simp del]

definition list_join ::
  "memory \<Rightarrow> list_t \<Rightarrow> list_t \<Rightarrow> ((list_result \<times> list_t option) \<times> memory) option" where
  "list_join m list1 list2 =
     (case list_create m (l_size list1 + l_size list2) None None of
        ((LIST_SUCCESS, Some joinList), m1) \<Rightarrow>
          do {
            ((items1, k1), m2) \<leftarrow> join_copy m1 list1 0 (l_items joinList) 0;
            ((items2, _), m3) \<leftarrow> join_copy m2 list2 0 items1 k1;
            Some ((LIST_SUCCESS,
                   Some (joinList\<lparr>l_items := items2, l_size := l_capacity joinList\<rparr>)), m3)
          }
      | ((result, _), m1) \<Rightarrow> Some ((result, None), m1))"


text \<open>The scan of \<open>list_includes\<close>.\<close>

function includes_loop :: "memory \<Rightarrow> list_t \<Rightarrow> int \<Rightarrow> byte list option \<Rightarrow> nat \<Rightarrow> list_result option" where
  "includes_loop m l i v n =
     (if i < l_size l then
        (case item_at m l i of
           None \<Rightarrow> None
         | Some element \<Rightarrow>
             if e_size element \<noteq> n then includes_loop m l (i + 1) v n
             else if l_equalityFunction l (e_value element) v (e_size element) = 0
               then Some LIST_SUCCESS
             else includes_loop m l (i + 1) v n)
      else Some LIST_ELEMENT_NOT_FOUND_ERROR)"
  by pat_completeness auto
termination
  by (relation "measure (\<lambda>(m, l, i, v, n). nat (l_size l - i))") auto

declare includes_loop.simps [simp del]

definition list_includes :: "memory \<Rightarrow> list_t \<Rightarrow> byte list option \<Rightarrow> nat \<Rightarrow> list_result option" where
  "list_includes m l v n = includes_loop m l 0 v n"

text \<open>
  The scan of \<open>list_find_first\<close>: the first index from \<open>i\<close> on whose element has the
  queried size and compares equal; \<open>Some None\<close> when the scan reaches \<open>size\<close>.
\<close>

function find_first_loop ::
  "memory \<Rightarrow> list_t \<Rightarrow> int \<Rightarrow> byte list option \<Rightarrow> nat \<Rightarrow> int option option" where
  "find_first_loop m l i v n =
     (if i < l_size l then
        (case item_at m l i of
           None \<Rightarrow> None
         | Some element \<Rightarrow>
             if e_size element \<noteq> n then find_first_loop m l (i + 1) v n
             else if l_equalityFunction l (e_value element) v (e_size element) = 0 then Some (Some i)
             else find_first_loop m l (i + 1) v n)
      else Some None)"
  by pat_completeness auto
termination
  by (relation "measure (\<lambda>(m, l, i, v, n). nat (l_size l - i))") auto

declare find_first_loop.simps [simp del]

text \<open>
  \<open>list_find_first\<close> answers an out-of-range start index with
  \<open>LIST_INVALID_PARAMS_ERROR\<close>, as its header says. The second component is
  \<open>*indexOut\<close>.
\<close>

definition list_find_first ::
  "memory \<Rightarrow> list_t \<Rightarrow> int \<Rightarrow> byte list option \<Rightarrow> nat \<Rightarrow> (list_result \<times> int) option" where
  "list_find_first m l startIndex v n =
     (if startIndex \<ge> l_size l \<or> startIndex < 0 then Some (LIST_INVALID_PARAMS_ERROR, -1)
      else if n \<le> 0 then Some (LIST_INVALID_PARAMS_ERROR, -1)
      else
        (case find_first_loop m l (if startIndex > 0 then startIndex else 0) v n of
           None \<Rightarrow> None
         | Some (Some i) \<Rightarrow> Some (LIST_SUCCESS, i)
         | Some None \<Rightarrow> Some (LIST_ELEMENT_NOT_FOUND_ERROR, -1)))"

text \<open>The scan of \<open>list_find_last\<close>, with its running answer \<open>index\<close>.\<close>

function find_last_loop ::
  "memory \<Rightarrow> list_t \<Rightarrow> int \<Rightarrow> int \<Rightarrow> byte list option \<Rightarrow> nat \<Rightarrow> int option" where
  "find_last_loop m l i index v n =
     (if i < l_size l then
        (case item_at m l i of
           None \<Rightarrow> None
         | Some element \<Rightarrow>
             if e_size element \<noteq> n then find_last_loop m l (i + 1) index v n
             else if l_equalityFunction l (e_value element) v (e_size element) = 0
               then find_last_loop m l (i + 1) i v n
             else find_last_loop m l (i + 1) index v n)
      else Some index)"
  by pat_completeness auto
termination
  by (relation "measure (\<lambda>(m, l, i, index, v, n). nat (l_size l - i))") auto

declare find_last_loop.simps [simp del]

definition list_find_last ::
  "memory \<Rightarrow> list_t \<Rightarrow> int \<Rightarrow> byte list option \<Rightarrow> nat \<Rightarrow> (list_result \<times> int) option" where
  "list_find_last m l startIndex v n =
     (if startIndex \<ge> l_size l \<or> startIndex < 0 then Some (LIST_INDEX_OUT_OF_RANGE_ERROR, -1)
      else if n \<le> 0 then Some (LIST_INVALID_PARAMS_ERROR, -1)
      else
        (case find_last_loop m l startIndex (-1) v n of
           None \<Rightarrow> None
         | Some index \<Rightarrow>
             Some (if index \<noteq> -1 then LIST_SUCCESS else LIST_ELEMENT_NOT_FOUND_ERROR, index)))"

definition list_sort :: "memory \<Rightarrow> list_t \<Rightarrow> bool \<Rightarrow> (list_result \<times> list_t) option" where
  "list_sort m l ascending =
     (if l_size l = 0 \<or> l_size l = 1 then Some (LIST_SUCCESS, l)
      else
        (case l_sortingFunction l of
           None \<Rightarrow> list_default_sort m l ascending
         | Some f \<Rightarrow>
             (case f (m_elements m) (l_items l) ascending of
                (result, items) \<Rightarrow> Some (result, l\<lparr>l_items := items\<rparr>))))"

subsection \<open>The iterator\<close>

text \<open>
  \<open>struct list_iterator\<close> without its borrowed list pointer: \<open>list_iterator_next\<close>
  is given the list the iterator was created over. \<open>it_index = -1\<close> is the rewound
  state.
\<close>

record list_iterator =
  it_index :: int
  it_element :: pointer

definition list_iterator_create :: "list_t \<Rightarrow> list_result \<times> list_iterator" where
  "list_iterator_create l = (LIST_SUCCESS, \<lparr>it_index = -1, it_element = NULL\<rparr>)"

definition list_iterator_next :: "list_t \<Rightarrow> list_iterator \<Rightarrow> (list_result \<times> list_iterator) option" where
  "list_iterator_next l iterator =
     (if it_index iterator = -1 then
        do {
          element \<leftarrow> item (l_items l) 0;
          Some (LIST_SUCCESS, \<lparr>it_index = 0, it_element = element\<rparr>)
        }
      else if it_index iterator + 1 \<ge> l_size l then
        Some (LIST_INDEX_OUT_OF_RANGE_ERROR, \<lparr>it_index = -1, it_element = NULL\<rparr>)
      else
        do {
          element \<leftarrow> item (l_items l) (it_index iterator + 1);
          Some (LIST_SUCCESS, \<lparr>it_index = it_index iterator + 1, it_element = element\<rparr>)
        })"

definition list_iterator_rewind :: "list_iterator \<Rightarrow> list_result \<times> list_iterator" where
  "list_iterator_rewind iterator = (LIST_SUCCESS, \<lparr>it_index = -1, it_element = NULL\<rparr>)"


section \<open>linked\_list.c: the singly linked list\<close>

text \<open>
  A node owns one element and its successor, and no node or element is ever
  reachable from two places of a list: the chain that starts at a node pointer is
  the list of the elements of the nodes reachable from it (\<open>[]\<close> for \<open>NULL\<close>), and
  a change to an element is a change to the chain it is in.

  \<open>struct linked_list\<close> is the chain from \<open>head\<close>, the pointer \<open>tail\<close>, the counter
  \<open>size\<close> and the two function pointers. \<open>tail\<close> is \<open>NULL\<close>, or points to the node at
  a position of the chain (counted from 0; after the functions that maintain it,
  the last), or to a node that \<open>linked_list_resize\<close> has cut off the chain without
  freeing it, given by its element (of the nodes linked behind such a node only the
  last, to which \<open>tail\<close> moves, can be reached again), or to a node that has been
  freed.
\<close>

datatype tail_pointer = TAIL_NULL | TAIL_AT nat | TAIL_DETACHED list_element | TAIL_FREED

record linked_list_t =
  ll_head :: "list_element list"
  ll_tail :: tail_pointer
  ll_size :: int
  ll_equalityFunction :: equality_function
  ll_sortingFunction :: "(list_element list \<Rightarrow> bool \<Rightarrow> list_result \<times> list_element list) option"

text \<open>The pointer to the last node of a chain, as a walk to its end finds it.\<close>

definition last_node :: "list_element list \<Rightarrow> tail_pointer" where
  "last_node chain = (if chain = [] then TAIL_NULL else TAIL_AT (length chain - 1))"

text \<open>
  \<open>previousNode->next = node; previousNode = node\<close>, for a pointer \<open>previousNode\<close>
  that starts on \<open>tail\<close>: the new node replaces whatever followed the node pointed
  to. Behind a node that is cut off the chain the new node is not in the chain.
\<close>

definition link_behind ::
  "list_element list \<Rightarrow> tail_pointer \<Rightarrow> list_element \<Rightarrow> (list_element list \<times> tail_pointer) option" where
  "link_behind chain previousNode node =
     (case previousNode of
        TAIL_NULL \<Rightarrow> None
      | TAIL_AT k \<Rightarrow>
          if k < length chain then Some (take (Suc k) chain @ [node], TAIL_AT (Suc k)) else None
      | TAIL_DETACHED _ \<Rightarrow> Some (chain, TAIL_DETACHED node)
      | TAIL_FREED \<Rightarrow> None)"

text \<open>
  What \<open>tail\<close> points to after a node has been linked in at position \<open>i\<close> of the
  chain, and after the node at position \<open>i\<close> has been unlinked and freed, \<open>tail\<close> not
  being assigned.
\<close>

definition tail_after_link :: "tail_pointer \<Rightarrow> nat \<Rightarrow> tail_pointer" where
  "tail_after_link tail i =
     (case tail of TAIL_AT k \<Rightarrow> if i \<le> k then TAIL_AT (Suc k) else TAIL_AT k | _ \<Rightarrow> tail)"

definition tail_after_free :: "tail_pointer \<Rightarrow> nat \<Rightarrow> tail_pointer" where
  "tail_after_free tail i =
     (case tail of
        TAIL_AT k \<Rightarrow> if k = i then TAIL_FREED else if i < k then TAIL_AT (k - 1) else TAIL_AT k
      | _ \<Rightarrow> tail)"

subsection \<open>Nodes and elements\<close>

text \<open>
  \<open>linked_list_node_create\<close> allocates the element, the buffer of a non-\<open>NULL\<close>
  value, then the node. The node is \<open>None\<close> when \<open>*nodeOut\<close> was not written.
\<close>

definition linked_list_node_create ::
  "allocator \<Rightarrow> byte list option \<Rightarrow> nat \<Rightarrow> (list_result \<times> list_element option) \<times> allocator" where
  "linked_list_node_create a v n =
     (case malloc a of
        (False, a1) \<Rightarrow> ((LIST_ALLOCATION_FAILURE, None), a1)
      | (True, a1) \<Rightarrow>
          (case (case v of
                   None \<Rightarrow> (Some \<lparr>e_size = n, e_value = None\<rparr>, a1)
                 | Some src \<Rightarrow>
                     (case malloc a1 of
                        (False, a2) \<Rightarrow> (None, a2)
                      | (True, a2) \<Rightarrow> (Some \<lparr>e_size = n, e_value = Some (memcpy src n)\<rparr>, a2))) of
             (None, a2) \<Rightarrow> ((LIST_ALLOCATION_FAILURE, None), a2)
           | (Some element, a2) \<Rightarrow>
               (case malloc a2 of
                  (False, a3) \<Rightarrow> ((LIST_ALLOCATION_FAILURE, None), a3)
                | (True, a3) \<Rightarrow> ((LIST_SUCCESS, Some element), a3))))"

text \<open>
  \<open>linked_list_element_clone\<close> and \<open>linked_list_element_set\<close>, on the element of a
  node. \<open>linked_list_element_clone\<close> reads \<open>element->size\<close> after it has allocated
  the struct of the clone; when the buffer of the clone cannot be allocated it
  returns without a write to \<open>*elementOut\<close>. \<open>linked_list_element_set\<close> reallocates
  the buffer only when the size changes; an element whose buffer could not be
  reallocated keeps the new size and a \<open>NULL\<close> value; \<open>memcpy\<close> into a \<open>NULL\<close> buffer
  or out of a \<open>NULL\<close> value is undefined.
\<close>

definition linked_list_element_clone ::
  "allocator \<Rightarrow> list_element option \<Rightarrow> ((list_result \<times> list_element option) \<times> allocator) option" where
  "linked_list_element_clone a element =
     (case malloc a of
        (False, a1) \<Rightarrow> Some ((LIST_ALLOCATION_FAILURE, None), a1)
      | (True, a1) \<Rightarrow>
          (case element of
             None \<Rightarrow> None
           | Some e \<Rightarrow>
               (case e_value e of
                  None \<Rightarrow> Some ((LIST_SUCCESS, Some \<lparr>e_size = e_size e, e_value = None\<rparr>), a1)
                | Some bytes \<Rightarrow>
                    (case malloc a1 of
                       (False, a2) \<Rightarrow> Some ((LIST_ALLOCATION_FAILURE, None), a2)
                     | (True, a2) \<Rightarrow>
                         Some ((LIST_SUCCESS,
                                Some \<lparr>e_size = e_size e, e_value = Some (memcpy bytes (e_size e))\<rparr>), a2)))))"

definition linked_list_element_set ::
  "allocator \<Rightarrow> list_element \<Rightarrow> byte list option \<Rightarrow> nat \<Rightarrow> ((list_result \<times> list_element) \<times> allocator) option" where
  "linked_list_element_set a element v n =
     (if n \<noteq> e_size element then
        (case malloc a of
           (False, a1) \<Rightarrow> Some ((LIST_ALLOCATION_FAILURE, \<lparr>e_size = n, e_value = None\<rparr>), a1)
         | (True, a1) \<Rightarrow>
             (case v of
                None \<Rightarrow> None
              | Some src \<Rightarrow> Some ((LIST_SUCCESS, \<lparr>e_size = n, e_value = Some (memcpy src n)\<rparr>), a1)))
      else
        (case (e_value element, v) of
           (Some _, Some src) \<Rightarrow> Some ((LIST_SUCCESS, \<lparr>e_size = n, e_value = Some (memcpy src n)\<rparr>), a)
         | _ \<Rightarrow> None))"

text \<open>
  \<open>linked_list_node_get\<close>: the position of the node in the chain. When the chain is
  shorter than \<open>size\<close> says, the loop ends and the function returns no value: \<open>None\<close>.
\<close>

definition linked_list_node_get :: "linked_list_t \<Rightarrow> int \<Rightarrow> (list_result \<times> nat option) option" where
  "linked_list_node_get l index =
     (if index \<ge> ll_size l \<or> index < 0 then Some (LIST_INDEX_OUT_OF_RANGE_ERROR, None)
      else if nat index < length (ll_head l) then Some (LIST_SUCCESS, Some (nat index))
      else None)"

subsection \<open>The default sort: merge sort\<close>

text \<open>
  \<open>merge\<close> keeps the \<open>int32_t\<close> result of the equality function in an \<open>int8_t\<close>: only
  the low eight bits survive, read as two's complement.
\<close>

definition int8_t_of :: "int \<Rightarrow> int" where
  "int8_t_of x = (x + 128) mod 256 - 128"

definition takeFromFirstHalf :: "bool \<Rightarrow> equality_function \<Rightarrow> list_element \<Rightarrow> list_element \<Rightarrow> bool" where
  "takeFromFirstHalf ascending equalityFunction f s =
     (let equality = int8_t_of (equalityFunction (e_value f) (e_value s) (e_size f))
      in if ascending then equality \<le> 0 else equality \<ge> 0)"

text \<open>
  The \<open>while (firstHalf != NULL && secondHalf != NULL)\<close> loop of \<open>merge\<close> together
  with the link of the half that is left: the nodes that follow \<open>lastMergedNode\<close>.
\<close>

fun merge_loop ::
  "bool \<Rightarrow> equality_function \<Rightarrow> list_element list \<Rightarrow> list_element list \<Rightarrow> list_element list" where
  "merge_loop ascending eq [] secondHalf = secondHalf"
| "merge_loop ascending eq firstHalf [] = firstHalf"
| "merge_loop ascending eq (f # firstHalf) (s # secondHalf) =
     (if takeFromFirstHalf ascending eq f s
      then f # merge_loop ascending eq firstHalf (s # secondHalf)
      else s # merge_loop ascending eq (f # firstHalf) secondHalf)"

definition merge ::
  "list_element list \<Rightarrow> list_element list \<Rightarrow> bool \<Rightarrow> equality_function \<Rightarrow> list_element list" where
  "merge firstHalf secondHalf ascending eq =
     (case firstHalf of
        [] \<Rightarrow> secondHalf
      | f # firstRest \<Rightarrow>
          (case secondHalf of
             [] \<Rightarrow> firstHalf
           | s # secondRest \<Rightarrow>
               if takeFromFirstHalf ascending eq f s
               then f # merge_loop ascending eq firstRest secondHalf
               else s # merge_loop ascending eq firstHalf secondRest))"

text \<open>
  \<open>merge_split\<close>: \<open>singleStep\<close> starts on the first node and \<open>doubleStep\<close> on the
  second; \<open>split_steps\<close> counts how often the loop advances \<open>singleStep\<close>, given the
  chain from \<open>doubleStep\<close>. The chain is cut after \<open>singleStep\<close>.
\<close>

fun split_steps :: "list_element list \<Rightarrow> nat" where
  "split_steps (d # d' # rest) = Suc (split_steps rest)"
| "split_steps _ = 0"

definition merge_split :: "list_element list \<Rightarrow> list_element list \<times> list_element list" where
  "merge_split source =
     (case source of
        [] \<Rightarrow> (source, [])
      | [x] \<Rightarrow> (source, [])
      | x # doubleStep \<Rightarrow>
          (let k = split_steps doubleStep in (take (Suc k) source, drop (Suc k) source)))"

lemma split_steps_le: "split_steps xs \<le> length xs div 2"
  by (induction xs rule: split_steps.induct) auto

lemma merge_split_lengths:
  assumes "merge_split (x # y # zs) = (firstHalf, secondHalf)"
  shows "length firstHalf < length (x # y # zs)" and "length secondHalf < length (x # y # zs)"
    and "firstHalf \<noteq> []" and "firstHalf @ secondHalf = x # y # zs"
proof -
  let ?k = "split_steps (y # zs)"
  from assms have f: "firstHalf = take (Suc ?k) (x # y # zs)"
    and s: "secondHalf = drop (Suc ?k) (x # y # zs)"
    by (simp_all add: merge_split_def Let_def)
  have k: "?k \<le> length (y # zs) div 2" by (rule split_steps_le)
  from f k show "length firstHalf < length (x # y # zs)" by simp
  from s show "length secondHalf < length (x # y # zs)" by simp
  from f show "firstHalf \<noteq> []" by simp
  from f s show "firstHalf @ secondHalf = x # y # zs" by simp
qed

function merge_sort :: "list_element list \<Rightarrow> bool \<Rightarrow> equality_function \<Rightarrow> list_element list" where
  "merge_sort [] ascending eq = []"
| "merge_sort [x] ascending eq = [x]"
| "merge_sort (x # y # zs) ascending eq =
     (case merge_split (x # y # zs) of
        (firstHalf, secondHalf) \<Rightarrow>
          merge (merge_sort firstHalf ascending eq) (merge_sort secondHalf ascending eq) ascending eq)"
  by pat_completeness auto
termination merge_sort
proof (relation "measure (\<lambda>(head, ascending, eq). length head)", goal_cases)
  case 1
  show ?case by simp
next
  case (2 x y zs ascending eq firstHalf secondHalf)
  from 2 have "merge_split (x # y # zs) = (firstHalf, secondHalf)" by simp
  from merge_split_lengths(1)[OF this] show ?case by simp
next
  case (3 x y zs ascending eq firstHalf secondHalf)
  from 3 have "merge_split (x # y # zs) = (firstHalf, secondHalf)" by simp
  from merge_split_lengths(2)[OF this] show ?case by simp
qed

text \<open>
  \<open>default_sort\<close> stores the head and the tail that \<open>merge_sort\<close> returns: the tail
  of a sorted chain is its last node.
\<close>

definition linked_list_default_sort :: "linked_list_t \<Rightarrow> bool \<Rightarrow> list_result \<times> linked_list_t" where
  "linked_list_default_sort l ascending =
     (let newHead = merge_sort (ll_head l) ascending (ll_equalityFunction l)
      in (LIST_SUCCESS, l\<lparr>ll_head := newHead, ll_tail := last_node newHead\<rparr>))"

text \<open>
  A custom sorting function is given by what it does to the chain; it is taken to
  leave \<open>tail\<close> on the last node, as \<open>default_sort\<close> does.
\<close>

definition linked_list_sort :: "linked_list_t \<Rightarrow> bool \<Rightarrow> list_result \<times> linked_list_t" where
  "linked_list_sort l ascending =
     (if ll_size l = 0 \<or> ll_size l = 1 then (LIST_SUCCESS, l)
      else
        (case ll_sortingFunction l of
           None \<Rightarrow> linked_list_default_sort l ascending
         | Some f \<Rightarrow>
             (case f (ll_head l) ascending of
                (result, chain) \<Rightarrow> (result, l\<lparr>ll_head := chain, ll_tail := last_node chain\<rparr>))))"


subsection \<open>Construction, append and insert\<close>


text \<open>
  \<open>linked_list_append\<close> links the new node behind the node \<open>tail\<close> points to,
  whether or not that node is the last of the chain, or in it.
\<close>

definition linked_list_append ::
  "allocator \<Rightarrow> linked_list_t \<Rightarrow> byte list option \<Rightarrow> nat \<Rightarrow> (list_result \<times> linked_list_t) option" where
  "linked_list_append a l v n =
     (case linked_list_node_create a v n of
        ((LIST_SUCCESS, Some node), _) \<Rightarrow>
          (if ll_head l = [] then
             Some (LIST_SUCCESS, l\<lparr>ll_head := [node], ll_tail := TAIL_AT 0, ll_size := ll_size l + 1\<rparr>)
           else
             do {
               (chain, tail) \<leftarrow> link_behind (ll_head l) (ll_tail l) node;
               Some (LIST_SUCCESS, l\<lparr>ll_head := chain, ll_tail := tail, ll_size := ll_size l + 1\<rparr>)
             })
      | ((nodeCreateResult, _), _) \<Rightarrow> Some (nodeCreateResult, l))"

definition linked_list_insert ::
  "allocator \<Rightarrow> linked_list_t \<Rightarrow> int \<Rightarrow> byte list option \<Rightarrow> nat \<Rightarrow> (list_result \<times> linked_list_t) option" where
  "linked_list_insert a l index v n =
     (if index > ll_size l \<or> index < 0 then Some (LIST_INDEX_OUT_OF_RANGE_ERROR, l)
      else
        (case linked_list_node_create a v n of
           ((LIST_SUCCESS, Some newNode), _) \<Rightarrow>
             (if ll_head l = [] then
                Some (LIST_SUCCESS,
                      l\<lparr>ll_head := [newNode], ll_tail := TAIL_AT 0, ll_size := ll_size l + 1\<rparr>)
              else if index = 0 then
                Some (LIST_SUCCESS,
                      l\<lparr>ll_head := newNode # ll_head l, ll_tail := tail_after_link (ll_tail l) 0,
                        ll_size := ll_size l + 1\<rparr>)
              else if index = ll_size l then
                do {
                  (chain, tail) \<leftarrow> link_behind (ll_head l) (ll_tail l) newNode;
                  Some (LIST_SUCCESS, l\<lparr>ll_head := chain, ll_tail := tail, ll_size := ll_size l + 1\<rparr>)
                }
              else
                (case linked_list_node_get l (index - 1) of
                   None \<Rightarrow> None
                 | Some (LIST_SUCCESS, Some previousNode) \<Rightarrow>
                     Some (LIST_SUCCESS,
                           l\<lparr>ll_head := take (Suc previousNode) (ll_head l) @ [newNode]
                                          @ drop (Suc previousNode) (ll_head l),
                             ll_tail := tail_after_link (ll_tail l) (Suc previousNode),
                             ll_size := ll_size l + 1\<rparr>)
                 | Some (getNodeResult, _) \<Rightarrow> Some (getNodeResult, l)))
         | ((nodeCreateResult, _), _) \<Rightarrow> Some (nodeCreateResult, l)))"

subsection \<open>Access by index\<close>

text \<open>
  \<open>linked_list_get\<close> and \<open>linked_list_set\<close> walk the chain with a counter. A walk of
  \<open>linked_list_get\<close> that does not reach the index ends the function without a return
  value (\<open>None\<close>); \<open>linked_list_set\<close> returns success after such a walk.
\<close>

definition linked_list_get ::
  "allocator \<Rightarrow> linked_list_t \<Rightarrow> int \<Rightarrow> (list_result \<times> list_element option) option" where
  "linked_list_get a l index =
     (if index \<ge> ll_size l \<or> index < 0 then Some (LIST_INDEX_OUT_OF_RANGE_ERROR, None)
      else if nat index < length (ll_head l) then
        (case linked_list_element_clone a (Some (ll_head l ! nat index)) of
           None \<Rightarrow> None
         | Some ((LIST_SUCCESS, elementClone), _) \<Rightarrow> Some (LIST_SUCCESS, elementClone)
         | Some ((cloneResult, _), _) \<Rightarrow> Some (cloneResult, None))
      else None)"

definition linked_list_set ::
  "allocator \<Rightarrow> linked_list_t \<Rightarrow> int \<Rightarrow> byte list option \<Rightarrow> nat \<Rightarrow> (list_result \<times> linked_list_t) option" where
  "linked_list_set a l index v n =
     (if index \<ge> ll_size l \<or> index < 0 then Some (LIST_INDEX_OUT_OF_RANGE_ERROR, l)
      else if nat index < length (ll_head l) then
        (case linked_list_element_set a (ll_head l ! nat index) v n of
           None \<Rightarrow> None
         | Some ((setResult, e'), _) \<Rightarrow> Some (setResult, l\<lparr>ll_head := (ll_head l)[nat index := e']\<rparr>))
      else Some (LIST_SUCCESS, l))"

text \<open>
  \<open>linked_list_remove\<close> and \<open>linked_list_pop\<close> take the index as \<open>uint64_t\<close>: the
  comparisons with the \<open>int64_t\<close> size convert the size to \<open>uint64_t\<close>.
\<close>

definition uint64_t_of :: "int \<Rightarrow> nat" where
  "uint64_t_of x = nat (x mod 2 ^ 64)"

text \<open>
  The end of the branch \<open>index == size - 1\<close> of both functions: the chain is cut
  behind \<open>newTail\<close>, \<open>tail\<close> moves there, and the node \<open>tail\<close> pointed to is freed.
  When that node is not behind \<open>newTail\<close> it stays linked into the chain after it
  has been freed, a state that the chain of the model does not have: \<open>None\<close>, as for
  the free of a freed node. The first component is the result of the free.
\<close>

definition free_previous_tail ::
  "linked_list_t \<Rightarrow> nat \<Rightarrow> (list_result \<times> linked_list_t) option" where
  "free_previous_tail l newTail =
     (let l1 = l\<lparr>ll_head := take (Suc newTail) (ll_head l), ll_tail := TAIL_AT newTail,
                  ll_size := ll_size l - 1\<rparr>
      in case ll_tail l of
           TAIL_NULL \<Rightarrow> Some (LIST_INVALID_PARAMS_ERROR, l1)
         | TAIL_AT k \<Rightarrow> if newTail < k then Some (LIST_SUCCESS, l1) else None
         | TAIL_DETACHED _ \<Rightarrow> Some (LIST_SUCCESS, l1)
         | TAIL_FREED \<Rightarrow> None)"

definition linked_list_remove :: "linked_list_t \<Rightarrow> nat \<Rightarrow> (list_result \<times> linked_list_t) option" where
  "linked_list_remove l index =
     (if index \<ge> uint64_t_of (ll_size l) then Some (LIST_INDEX_OUT_OF_RANGE_ERROR, l)
      else if ll_size l = 1 then
        (if ll_head l = [] then Some (LIST_INVALID_PARAMS_ERROR, l)
         else Some (LIST_SUCCESS, l\<lparr>ll_head := [], ll_tail := TAIL_NULL, ll_size := ll_size l - 1\<rparr>))
      else if index = 0 then
        (case ll_head l of
           [] \<Rightarrow> None
         | previousHead # rest \<Rightarrow>
             Some (LIST_SUCCESS,
                   l\<lparr>ll_head := rest, ll_tail := tail_after_free (ll_tail l) 0,
                     ll_size := ll_size l - 1\<rparr>))
      else if index = uint64_t_of (ll_size l - 1) then
        (case linked_list_node_get l (int index - 1) of
           None \<Rightarrow> None
         | Some (LIST_SUCCESS, Some newTail) \<Rightarrow> free_previous_tail l newTail
         | Some (getResult, _) \<Rightarrow> Some (getResult, l))
      else if index < length (ll_head l) then
        Some (LIST_SUCCESS,
              l\<lparr>ll_head := take index (ll_head l) @ drop (Suc index) (ll_head l),
                ll_tail := tail_after_free (ll_tail l) index,
                ll_size := ll_size l - 1\<rparr>)
      else None)"

text \<open>\<open>linkedList->tail->element\<close>, which \<open>linked_list_pop\<close> clones in its branch \<open>index == size - 1\<close>.\<close>

definition tail_element :: "linked_list_t \<Rightarrow> list_element option" where
  "tail_element l =
     (case ll_tail l of
        TAIL_AT k \<Rightarrow> if k < length (ll_head l) then Some (ll_head l ! k) else None
      | TAIL_DETACHED element \<Rightarrow> Some element
      | _ \<Rightarrow> None)"

definition linked_list_pop ::
  "allocator \<Rightarrow> linked_list_t \<Rightarrow> nat \<Rightarrow> ((list_result \<times> list_element option) \<times> linked_list_t) option" where
  "linked_list_pop a l index =
     (if index \<ge> uint64_t_of (ll_size l) then Some ((LIST_INDEX_OUT_OF_RANGE_ERROR, None), l)
      else if ll_size l = 1 \<or> index = 0 then
        (case ll_head l of
           [] \<Rightarrow> None
         | previousHead # rest \<Rightarrow>
             (case linked_list_element_clone a (Some previousHead) of
                None \<Rightarrow> None
              | Some ((LIST_SUCCESS, elementClone), _) \<Rightarrow>
                  Some ((LIST_SUCCESS, elementClone),
                        (if ll_size l = 1
                         then l\<lparr>ll_head := [], ll_tail := TAIL_NULL, ll_size := ll_size l - 1\<rparr>
                         else l\<lparr>ll_head := rest, ll_tail := tail_after_free (ll_tail l) 0,
                                 ll_size := ll_size l - 1\<rparr>))
              | Some ((cloneResult, _), _) \<Rightarrow> Some ((cloneResult, None), l)))
      else if index = uint64_t_of (ll_size l - 1) then
        (case tail_element l of
           None \<Rightarrow> None
         | Some element \<Rightarrow>
             (case linked_list_element_clone a (Some element) of
                None \<Rightarrow> None
              | Some ((LIST_SUCCESS, elementClone), _) \<Rightarrow>
                  (case linked_list_node_get l (int index - 1) of
                     None \<Rightarrow> None
                   | Some (LIST_SUCCESS, Some newTail) \<Rightarrow>
                       (case free_previous_tail l newTail of
                          None \<Rightarrow> None
                        | Some (_, l1) \<Rightarrow> Some ((LIST_SUCCESS, elementClone), l1))
                   | Some (getResult, _) \<Rightarrow> Some ((getResult, None), l))
              | Some ((cloneResult, _), _) \<Rightarrow> Some ((cloneResult, None), l)))
      else if index < length (ll_head l) then
        (case linked_list_element_clone a (Some (ll_head l ! index)) of
           None \<Rightarrow> None
         | Some ((LIST_SUCCESS, elementClone), _) \<Rightarrow>
             Some ((LIST_SUCCESS, elementClone),
                   l\<lparr>ll_head := take index (ll_head l) @ drop (Suc index) (ll_head l),
                     ll_tail := tail_after_free (ll_tail l) index,
                     ll_size := ll_size l - 1\<rparr>)
         | Some ((cloneResult, _), _) \<Rightarrow> Some ((cloneResult, None), l))
      else None)"

text \<open>
  \<open>linked_list_swap\<close> relinks the two nodes; the walks to them dereference every
  node up to the index, so an index past the end of the chain is a fault. When one
  of the two nodes is the one \<open>tail\<close> points to, \<open>tail\<close> is moved to the other, which
  has taken its position.
\<close>

definition linked_list_swap :: "linked_list_t \<Rightarrow> int \<Rightarrow> int \<Rightarrow> (list_result \<times> linked_list_t) option" where
  "linked_list_swap l index1 index2 =
     (if index1 \<ge> ll_size l \<or> index1 < 0 then Some (LIST_INDEX_OUT_OF_RANGE_ERROR, l)
      else if index2 \<ge> ll_size l \<or> index2 < 0 then Some (LIST_INDEX_OUT_OF_RANGE_ERROR, l)
      else if index1 = index2 then Some (LIST_SUCCESS, l)
      else if nat index1 < length (ll_head l) \<and> nat index2 < length (ll_head l) then
        Some (LIST_SUCCESS,
              l\<lparr>ll_head := (ll_head l)[nat index1 := ll_head l ! nat index2,
                                        nat index2 := ll_head l ! nat index1]\<rparr>)
      else None)"

subsection \<open>Search\<close>

text \<open>
  The scans of \<open>linked_list_find_first\<close> and \<open>linked_list_find_last\<close> over the chain
  from \<open>node\<close>, with the counter \<open>index\<close>.
\<close>

fun ll_find_first_loop ::
  "equality_function \<Rightarrow> list_element list \<Rightarrow> int \<Rightarrow> int \<Rightarrow> byte list option \<Rightarrow> nat \<Rightarrow> int option" where
  "ll_find_first_loop eq [] index startFromIndex v n = None"
| "ll_find_first_loop eq (node # rest) index startFromIndex v n =
     (if index < startFromIndex then ll_find_first_loop eq rest (index + 1) startFromIndex v n
      else if eq (e_value node) v n = 0 then Some index
      else ll_find_first_loop eq rest (index + 1) startFromIndex v n)"

fun ll_find_last_loop ::
  "equality_function \<Rightarrow> list_element list \<Rightarrow> int \<Rightarrow> int \<Rightarrow> int \<Rightarrow> byte list option \<Rightarrow> nat \<Rightarrow> int" where
  "ll_find_last_loop eq [] index lastFoundIndex startFromIndex v n = lastFoundIndex"
| "ll_find_last_loop eq (node # rest) index lastFoundIndex startFromIndex v n =
     (if index < startFromIndex
      then ll_find_last_loop eq rest (index + 1) lastFoundIndex startFromIndex v n
      else ll_find_last_loop eq rest (index + 1)
             (if eq (e_value node) v n = 0 then index else lastFoundIndex) startFromIndex v n)"

text \<open>The second component is what was written to \<open>*indexOut\<close>, if anything.\<close>

definition linked_list_find_first ::
  "linked_list_t \<Rightarrow> int \<Rightarrow> byte list option \<Rightarrow> nat \<Rightarrow> list_result \<times> int option" where
  "linked_list_find_first l startFromIndex v n =
     (if startFromIndex \<ge> ll_size l \<or> startFromIndex < 0 then (LIST_INDEX_OUT_OF_RANGE_ERROR, None)
      else
        (case ll_find_first_loop (ll_equalityFunction l) (ll_head l) 0 startFromIndex v n of
           Some index \<Rightarrow> (LIST_SUCCESS, Some index)
         | None \<Rightarrow> (LIST_ELEMENT_NOT_FOUND_ERROR, Some (-1))))"

definition linked_list_find_last ::
  "linked_list_t \<Rightarrow> int \<Rightarrow> byte list option \<Rightarrow> nat \<Rightarrow> list_result \<times> int option" where
  "linked_list_find_last l startFromIndex v n =
     (if startFromIndex \<ge> ll_size l \<or> startFromIndex < 0 then (LIST_INDEX_OUT_OF_RANGE_ERROR, None)
      else
        (let lastFoundIndex =
               ll_find_last_loop (ll_equalityFunction l) (ll_head l) 0 (-1) startFromIndex v n
         in (if lastFoundIndex = -1 then LIST_ELEMENT_NOT_FOUND_ERROR else LIST_SUCCESS,
             Some lastFoundIndex)))"



subsection \<open>Prepend, clear, reverse, clone, join, includes\<close>








fun ll_includes_loop :: "equality_function \<Rightarrow> list_element list \<Rightarrow> byte list option \<Rightarrow> nat \<Rightarrow> list_result" where
  "ll_includes_loop eq [] v n = LIST_ELEMENT_NOT_FOUND_ERROR"
| "ll_includes_loop eq (node # rest) v n =
     (if eq (e_value node) v n = 0 then LIST_SUCCESS else ll_includes_loop eq rest v n)"

definition linked_list_includes :: "linked_list_t \<Rightarrow> byte list option \<Rightarrow> nat \<Rightarrow> list_result" where
  "linked_list_includes l v n = ll_includes_loop (ll_equalityFunction l) (ll_head l) v n"

subsection \<open>Resize\<close>

text \<open>
  The sizes the source passes for the valueless nodes it creates, \<open>sizeof(NULL)\<close> and
  \<open>sizeof(void*)\<close>, on a 64-bit platform whose \<open>NULL\<close> is \<open>((void*)0)\<close>.
\<close>

definition sizeof_NULL :: nat where
  "sizeof_NULL = 8"

definition sizeof_void_ptr :: nat where
  "sizeof_void_ptr = 8"

text \<open>
  The loop that frees nodes, in the \<open>size == 0\<close> branch and in the shrinking
  branch of \<open>linked_list_resize\<close>:
  \<^verbatim>\<open>for (node = first; node != NULL; node = node->next) {
    if (previousNode != NULL) linked_list_node_free(&node);
    previousNode = node;
}\<close>
  The first node only sets \<open>previousNode\<close>. On a second node
  \<open>linked_list_node_free\<close> sets \<open>node\<close> to \<open>NULL\<close>, and the loop's \<open>node->next\<close> reads
  through it: \<open>None\<close>. The argument is the chain from \<open>node\<close> and whether
  \<open>previousNode\<close> is set.
\<close>

fun resize_free_loop :: "list_element list \<Rightarrow> bool \<Rightarrow> unit option" where
  "resize_free_loop [] previousNode = Some ()"
| "resize_free_loop (node # rest) previousNode =
     (if previousNode then None else resize_free_loop rest True)"

text \<open>
  The loop that links \<open>k\<close> valueless nodes behind \<open>previousNode\<close>, which starts on
  \<open>tail\<close>. A failed allocation returns at once, with the nodes linked so far; the
  third component is \<open>previousNode\<close> at the end.
\<close>

fun resize_grow_loop ::
  "allocator \<Rightarrow> list_element list \<Rightarrow> tail_pointer \<Rightarrow> nat
     \<Rightarrow> (list_result \<times> list_element list \<times> tail_pointer) option" where
  "resize_grow_loop a chain previousNode 0 = Some (LIST_SUCCESS, chain, previousNode)"
| "resize_grow_loop a chain previousNode (Suc k) =
     (case linked_list_node_create a None sizeof_void_ptr of
        ((LIST_SUCCESS, Some node), a1) \<Rightarrow>
          (case link_behind chain previousNode node of
             None \<Rightarrow> None
           | Some (chain1, previousNode1) \<Rightarrow> resize_grow_loop a1 chain1 previousNode1 k)
      | ((nodeCreateResult, _), _) \<Rightarrow> Some (nodeCreateResult, chain, previousNode))"

text \<open>
  \<open>linked_list_resize\<close>. Growing an empty chain first creates a head node, whose
  creation is not checked. A failed allocation in the loop returns with \<open>tail\<close> and
  \<open>size\<close> as they were. Shrinking cuts the chain behind \<open>startingNode\<close> and does not
  touch \<open>tail\<close>: the one node that the loop above can pass without a fault is left
  allocated, and \<open>tail\<close> keeps pointing to it.
\<close>

definition linked_list_resize ::
  "allocator \<Rightarrow> linked_list_t \<Rightarrow> nat \<Rightarrow> (list_result \<times> linked_list_t) option" where
  "linked_list_resize a l newSize =
     (if newSize = uint64_t_of (ll_size l) then Some (LIST_SUCCESS, l)
      else if newSize = 0 then
        (case resize_free_loop (ll_head l) False of
           None \<Rightarrow> None
         | Some _ \<Rightarrow>
             Some (LIST_SUCCESS, l\<lparr>ll_head := [], ll_tail := TAIL_NULL, ll_size := int newSize\<rparr>))
      else if newSize > uint64_t_of (ll_size l) then
        (let (l1, a1) =
               (if ll_head l = [] then
                  (case linked_list_node_create a None sizeof_NULL of
                     ((_, Some node), a1) \<Rightarrow> (l\<lparr>ll_head := [node], ll_tail := TAIL_AT 0\<rparr>, a1)
                   | ((_, None), a1) \<Rightarrow> (l\<lparr>ll_head := [], ll_tail := TAIL_NULL\<rparr>, a1))
                else (l, a))
         in case resize_grow_loop a1 (ll_head l1) (ll_tail l1) (newSize - uint64_t_of (ll_size l)) of
              None \<Rightarrow> None
            | Some (LIST_SUCCESS, chain, previousNode) \<Rightarrow>
                Some (LIST_SUCCESS,
                      l1\<lparr>ll_head := chain, ll_tail := previousNode, ll_size := int newSize\<rparr>)
            | Some (nodeCreateResult, chain, _) \<Rightarrow> Some (nodeCreateResult, l1\<lparr>ll_head := chain\<rparr>))
      else
        (case linked_list_node_get l (int newSize - 1) of
           None \<Rightarrow> None
         | Some (LIST_SUCCESS, Some startingNode) \<Rightarrow>
             (case resize_free_loop (drop (Suc startingNode) (ll_head l)) False of
                None \<Rightarrow> None
              | Some _ \<Rightarrow>
                  Some (LIST_SUCCESS,
                        l\<lparr>ll_head := take (Suc startingNode) (ll_head l),
                          ll_tail :=
                            (case ll_tail l of
                               TAIL_AT k \<Rightarrow>
                                 if startingNode < k then TAIL_DETACHED (ll_head l ! k) else TAIL_AT k
                             | tail \<Rightarrow> tail),
                          ll_size := int newSize\<rparr>))
         | Some (getNodeResult, _) \<Rightarrow> Some (getNodeResult, l)))"

subsection \<open>The iterator\<close>

text \<open>
  \<open>struct linked_list_iterator\<close> without its borrowed list pointer;
  \<open>lit_node\<close> is the chain from \<open>iterator->node\<close>, \<open>[]\<close> for \<open>NULL\<close>.
\<close>

record linked_list_iterator =
  lit_index :: int
  lit_node :: "list_element list"

definition linked_list_iterator_create :: "linked_list_t \<Rightarrow> list_result \<times> linked_list_iterator" where
  "linked_list_iterator_create l = (LIST_SUCCESS, \<lparr>lit_index = -1, lit_node = []\<rparr>)"

definition linked_list_iterator_next ::
  "linked_list_t \<Rightarrow> linked_list_iterator \<Rightarrow> list_result \<times> linked_list_iterator" where
  "linked_list_iterator_next l iterator =
     (case lit_node iterator of
        [] \<Rightarrow> (LIST_SUCCESS, \<lparr>lit_index = 0, lit_node = ll_head l\<rparr>)
      | node # next \<Rightarrow>
          (if next = [] then (LIST_INDEX_OUT_OF_RANGE_ERROR, \<lparr>lit_index = -1, lit_node = []\<rparr>)
           else (LIST_SUCCESS, \<lparr>lit_index = lit_index iterator + 1, lit_node = next\<rparr>)))"

definition linked_list_iterator_rewind :: "linked_list_iterator \<Rightarrow> list_result \<times> linked_list_iterator" where
  "linked_list_iterator_rewind iterator = (LIST_SUCCESS, \<lparr>lit_index = -1, lit_node = []\<rparr>)"



section \<open>Properties\<close>

subsection \<open>Vocabulary of the properties\<close>

text \<open>
  Concrete states are written with the default equality and sorting functions: an
  element holding the given bytes, a valueless element of a given size, a memory by
  the outcomes of the allocations to come and its element structs, an array list by
  its count and buffer, and a linked list by its count and chain, \<open>tail\<close> on the last
  node.
\<close>

definition elem :: "byte list \<Rightarrow> list_element" where
  "elem bytes = \<lparr>e_size = length bytes, e_value = Some bytes\<rparr>"

definition valueless :: "nat \<Rightarrow> list_element" where
  "valueless n = \<lparr>e_size = n, e_value = None\<rparr>"

definition memory_of :: "allocator \<Rightarrow> list_element list \<Rightarrow> memory" where
  "memory_of outcomes elements = \<lparr>m_outcomes = outcomes, m_elements = elements\<rparr>"

definition array_list :: "int \<Rightarrow> pointer list \<Rightarrow> list_t" where
  "array_list n items =
     \<lparr>l_size = n, l_capacity = int (length items), l_items = items,
      l_equalityFunction = default_equals, l_sortingFunction = None\<rparr>"

definition linked_list :: "int \<Rightarrow> list_element list \<Rightarrow> linked_list_t" where
  "linked_list n chain =
     \<lparr>ll_head = chain, ll_tail = last_node chain, ll_size = n,
      ll_equalityFunction = default_equals, ll_sortingFunction = None\<rparr>"

text \<open>
  The orders of the sorting properties: each element compares \<open>\<le> 0\<close> (\<open>\<ge> 0\<close>)
  with every later one, the equality function being called as the sorts call it,
  with the size of its first argument.
\<close>

definition non_decreasing :: "equality_function \<Rightarrow> list_element list \<Rightarrow> bool" where
  "non_decreasing eq xs = sorted_wrt (\<lambda>x y. eq (e_value x) (e_value y) (e_size x) \<le> 0) xs"

definition non_increasing :: "equality_function \<Rightarrow> list_element list \<Rightarrow> bool" where
  "non_increasing eq xs = sorted_wrt (\<lambda>x y. eq (e_value x) (e_value y) (e_size x) \<ge> 0) xs"

subsection \<open>C1: sorting a list built by appends\<close>

text \<open>
  C1 says that, for either container built by appends of equal-size values with the
  default functions, \<open>sort(ascending = true)\<close> returns success and leaves the
  sequence non-decreasing. The array list does not: \<open>partition\<close> selects and places a
  pivot only in a range of three or more slots, so \<open>quicksort\<close> returns a range of two
  slots as it found it. An array list created with capacity 2 to which the one-byte
  values 2 and 1 are appended is returned unchanged, with \<open>LIST_SUCCESS\<close>, by the
  ascending sort: slot 0 still points to the 2, slot 1 to the 1.
\<close>

theorem list_sort_leaves_pair_unsorted:
  "list_create (memory_of [] []) 2 None None
       = ((LIST_SUCCESS, Some (array_list 0 [NULL, NULL])), memory_of [] [])
   \<and> list_append (memory_of [] []) (array_list 0 [NULL, NULL]) (Some [2]) 1
       = Some ((LIST_SUCCESS, array_list 1 [Ptr 0, NULL]), memory_of [] [elem [2]])
   \<and> list_append (memory_of [] [elem [2]]) (array_list 1 [Ptr 0, NULL]) (Some [1]) 1
       = Some ((LIST_SUCCESS, array_list 2 [Ptr 0, Ptr 1]), memory_of [] [elem [2], elem [1]])
   \<and> list_sort (memory_of [] [elem [2], elem [1]]) (array_list 2 [Ptr 0, Ptr 1]) True
       = Some (LIST_SUCCESS, array_list 2 [Ptr 0, Ptr 1])
   \<and> \<not> non_decreasing default_equals [elem [2], elem [1]]"
proof -
  have "list_create (memory_of [] []) 2 None None
       = ((LIST_SUCCESS, Some (array_list 0 [NULL, NULL])), memory_of [] [])"
    by (simp add: list_create_def allocate_def memory_of_def array_list_def numeral_2_eq_2)
  moreover have "list_append (memory_of [] []) (array_list 0 [NULL, NULL]) (Some [2]) 1
       = Some ((LIST_SUCCESS, array_list 1 [Ptr 0, NULL]), memory_of [] [elem [2]])"
    by (simp add: list_append_def grow_if_full_def array_list_def list_element_create_def
        allocate_def new_element_def set_item_def memory_of_def memcpy_def elem_def)
  moreover have "list_append (memory_of [] [elem [2]]) (array_list 1 [Ptr 0, NULL]) (Some [1]) 1
       = Some ((LIST_SUCCESS, array_list 2 [Ptr 0, Ptr 1]), memory_of [] [elem [2], elem [1]])"
    by (simp add: list_append_def grow_if_full_def array_list_def list_element_create_def
        allocate_def new_element_def set_item_def memory_of_def memcpy_def elem_def)
  moreover have "list_sort (memory_of [] [elem [2], elem [1]]) (array_list 2 [Ptr 0, Ptr 1]) True
       = Some (LIST_SUCCESS, array_list 2 [Ptr 0, Ptr 1])"
    by (simp add: list_sort_def list_default_sort_def array_list_def quicksort.simps
        list_partition_def partition_loop.simps item_at_def item_def set_item_def element_at_def
        list_swap_def memory_of_def elem_def)
  moreover have "\<not> non_decreasing default_equals [elem [2], elem [1]]"
    by (simp add: non_decreasing_def default_equals_def elem_def)
  ultimately show ?thesis by blast
qed

text \<open>
  The same holds below the top level: of the five values 1, 9, 5, 0, 7 the pivot 5
  is placed and the two ranges of two slots around it are left as they are, the
  slots pointing to 1, 0, 5, 9, 7.
\<close>

lemma list_sort_leaves_subranges_unsorted:
  "list_sort (memory_of [] [elem [1], elem [9], elem [5], elem [0], elem [7]])
       (array_list 5 [Ptr 0, Ptr 1, Ptr 2, Ptr 3, Ptr 4]) True
     = Some (LIST_SUCCESS, array_list 5 [Ptr 0, Ptr 3, Ptr 2, Ptr 1, Ptr 4])"
  by (simp add: list_sort_def list_default_sort_def array_list_def quicksort.simps
      list_partition_def median_of_three_def swap_if_misordered_def compare_slots_def
      partition_loop.simps item_at_def item_def set_item_def element_at_def list_swap_def
      memory_of_def elem_def default_equals_def Let_def)

text \<open>
  In the linked list the \<open>int8_t\<close> of \<open>merge\<close> turns a byte difference of 150 into
  \<open>-106\<close>: with a \<open>memcmp\<close> that returns the byte difference, 200 is merged before
  50.
\<close>

lemma linked_list_sort_int8_truncation:
  "linked_list_sort (linked_list 2 [elem [200], elem [50]]) True
     = (LIST_SUCCESS, linked_list 2 [elem [200], elem [50]])"
  by (simp add: linked_list_sort_def linked_list_default_sort_def linked_list_def last_node_def
      merge_split_def merge_def takeFromFirstHalf_def default_equals_def elem_def int8_t_of_def)


subsection \<open>C2: the iterator on an empty container\<close>

text \<open>
  C2 says that on an empty container the first \<open>next()\<close> signals
  \<open>IndexOutOfRange\<close> and leaves the iterator rewound. Both \<open>next\<close> functions
  start a rewound iterator on index 0 without looking at the size. Over an empty
  array list (here as \<open>list_create\<close> makes it, eight \<open>NULL\<close> slots) the first call
  returns \<open>LIST_SUCCESS\<close> with index 0 and a \<open>NULL\<close> element; over an empty linked
  list every call returns \<open>LIST_SUCCESS\<close> with index 0 and a \<open>NULL\<close> node.
\<close>

theorem iterator_next_on_empty_container:
  "list_iterator_create (array_list 0 (replicate 8 NULL))
       = (LIST_SUCCESS, \<lparr>it_index = -1, it_element = NULL\<rparr>)
   \<and> list_iterator_next (array_list 0 (replicate 8 NULL)) \<lparr>it_index = -1, it_element = NULL\<rparr>
       = Some (LIST_SUCCESS, \<lparr>it_index = 0, it_element = NULL\<rparr>)
   \<and> linked_list_iterator_create (linked_list 0 [])
       = (LIST_SUCCESS, \<lparr>lit_index = -1, lit_node = []\<rparr>)
   \<and> linked_list_iterator_next (linked_list 0 []) \<lparr>lit_index = -1, lit_node = []\<rparr>
       = (LIST_SUCCESS, \<lparr>lit_index = 0, lit_node = []\<rparr>)
   \<and> linked_list_iterator_next (linked_list 0 []) \<lparr>lit_index = 0, lit_node = []\<rparr>
       = (LIST_SUCCESS, \<lparr>lit_index = 0, lit_node = []\<rparr>)"
  by (simp add: list_iterator_create_def list_iterator_next_def item_def array_list_def
      linked_list_iterator_create_def linked_list_iterator_next_def linked_list_def)

text \<open>
  Over a container that holds at least one element the walk is the one described:
  \<open>n\<close> calls succeed, on the indices \<open>0\<close> to \<open>n - 1\<close> in order, and the call after them
  returns \<open>LIST_INDEX_OUT_OF_RANGE_ERROR\<close> and rewinds the iterator. The results of
  \<open>k\<close> successive calls and the iterator they reach:
\<close>

fun list_iterator_nexts ::
  "list_t \<Rightarrow> list_iterator \<Rightarrow> nat \<Rightarrow> (list_result list \<times> list_iterator) option" where
  "list_iterator_nexts l iterator 0 = Some ([], iterator)"
| "list_iterator_nexts l iterator (Suc k) =
     (case list_iterator_next l iterator of
        None \<Rightarrow> None
      | Some (r, iterator') \<Rightarrow>
          map_option (\<lambda>(rs, reached). (r # rs, reached)) (list_iterator_nexts l iterator' k))"

fun linked_list_iterator_nexts ::
  "linked_list_t \<Rightarrow> linked_list_iterator \<Rightarrow> nat \<Rightarrow> list_result list \<times> linked_list_iterator" where
  "linked_list_iterator_nexts l iterator 0 = ([], iterator)"
| "linked_list_iterator_nexts l iterator (Suc k) =
     (case linked_list_iterator_next l iterator of
        (r, iterator') \<Rightarrow>
          (case linked_list_iterator_nexts l iterator' k of (rs, reached) \<Rightarrow> (r # rs, reached)))"

lemma list_iterator_next_inside:
  assumes "0 \<le> i" and "i + 1 < l_size l" and "l_size l \<le> int (length (l_items l))"
  shows "list_iterator_next l \<lparr>it_index = i, it_element = e\<rparr>
         = Some (LIST_SUCCESS, \<lparr>it_index = i + 1, it_element = l_items l ! nat (i + 1)\<rparr>)"
  using assms by (simp add: list_iterator_next_def item_def)

lemma list_iterator_nexts_inside:
  "0 \<le> i \<Longrightarrow> i + int k < l_size l \<Longrightarrow> l_size l \<le> int (length (l_items l))
     \<Longrightarrow> list_iterator_nexts l \<lparr>it_index = i, it_element = l_items l ! nat i\<rparr> k
         = Some (replicate k LIST_SUCCESS,
                 \<lparr>it_index = i + int k, it_element = l_items l ! nat (i + int k)\<rparr>)"
proof (induction k arbitrary: i)
  case 0
  then show ?case by simp
next
  case (Suc k)
  from Suc.prems have step: "list_iterator_next l \<lparr>it_index = i, it_element = l_items l ! nat i\<rparr>
      = Some (LIST_SUCCESS, \<lparr>it_index = i + 1, it_element = l_items l ! nat (i + 1)\<rparr>)"
    by (intro list_iterator_next_inside) simp_all
  have "list_iterator_nexts l \<lparr>it_index = i + 1, it_element = l_items l ! nat (i + 1)\<rparr> k
      = Some (replicate k LIST_SUCCESS,
              \<lparr>it_index = i + 1 + int k, it_element = l_items l ! nat (i + 1 + int k)\<rparr>)"
    by (rule Suc.IH) (use Suc.prems in simp_all)
  moreover have "i + 1 + int k = i + int (Suc k)" by simp
  ultimately show ?case
    by (subst list_iterator_nexts.simps(2)) (simp add: step del: list_iterator_nexts.simps)
qed

lemma list_iterator_nexts_to_end:
  "0 \<le> i \<Longrightarrow> i + int k + 1 = l_size l \<Longrightarrow> l_size l \<le> int (length (l_items l))
     \<Longrightarrow> list_iterator_nexts l \<lparr>it_index = i, it_element = e\<rparr> (Suc k)
         = Some (replicate k LIST_SUCCESS @ [LIST_INDEX_OUT_OF_RANGE_ERROR],
                 \<lparr>it_index = -1, it_element = NULL\<rparr>)"
proof (induction k arbitrary: i e)
  case 0
  then show ?case by (simp add: list_iterator_next_def)
next
  case (Suc k)
  from Suc.prems have step: "list_iterator_next l \<lparr>it_index = i, it_element = e\<rparr>
      = Some (LIST_SUCCESS, \<lparr>it_index = i + 1, it_element = l_items l ! nat (i + 1)\<rparr>)"
    by (intro list_iterator_next_inside) simp_all
  have "list_iterator_nexts l \<lparr>it_index = i + 1, it_element = l_items l ! nat (i + 1)\<rparr> (Suc k)
      = Some (replicate k LIST_SUCCESS @ [LIST_INDEX_OUT_OF_RANGE_ERROR],
              \<lparr>it_index = -1, it_element = NULL\<rparr>)"
    by (rule Suc.IH) (use Suc.prems in simp_all)
  then show ?case
    by (subst list_iterator_nexts.simps(2)) (simp add: step del: list_iterator_nexts.simps)
qed

lemma list_iterator_visits_all:
  assumes "0 < n" and "l_size l = int n" and "n \<le> length (l_items l)"
  shows "k < n \<Longrightarrow> list_iterator_nexts l (snd (list_iterator_create l)) (Suc k)
         = Some (replicate (Suc k) LIST_SUCCESS,
                 \<lparr>it_index = int k, it_element = l_items l ! k\<rparr>)"
    and "list_iterator_nexts l (snd (list_iterator_create l)) (Suc n)
         = Some (replicate n LIST_SUCCESS @ [LIST_INDEX_OUT_OF_RANGE_ERROR],
                 \<lparr>it_index = -1, it_element = NULL\<rparr>)"
proof -
  have first: "list_iterator_next l \<lparr>it_index = -1, it_element = NULL\<rparr>
      = Some (LIST_SUCCESS, \<lparr>it_index = 0, it_element = l_items l ! nat 0\<rparr>)"
    using assms by (cases "l_items l") (simp_all add: list_iterator_next_def item_def)
  have create: "snd (list_iterator_create l) = \<lparr>it_index = -1, it_element = NULL\<rparr>"
    by (simp add: list_iterator_create_def)
  show "list_iterator_nexts l (snd (list_iterator_create l)) (Suc k)
         = Some (replicate (Suc k) LIST_SUCCESS, \<lparr>it_index = int k, it_element = l_items l ! k\<rparr>)"
    if "k < n"
  proof -
    from that assms have "list_iterator_nexts l \<lparr>it_index = 0, it_element = l_items l ! nat 0\<rparr> k
        = Some (replicate k LIST_SUCCESS,
                \<lparr>it_index = 0 + int k, it_element = l_items l ! nat (0 + int k)\<rparr>)"
      by (intro list_iterator_nexts_inside) simp_all
    then show ?thesis
      unfolding create by (subst list_iterator_nexts.simps(2)) (simp add: first del: list_iterator_nexts.simps)
  qed
  from assms(1) obtain m where n: "n = Suc m" by (cases n) auto
  from assms n have "list_iterator_nexts l \<lparr>it_index = 0, it_element = l_items l ! nat 0\<rparr> (Suc m)
      = Some (replicate m LIST_SUCCESS @ [LIST_INDEX_OUT_OF_RANGE_ERROR],
              \<lparr>it_index = -1, it_element = NULL\<rparr>)"
    by (intro list_iterator_nexts_to_end) simp_all
  then show "list_iterator_nexts l (snd (list_iterator_create l)) (Suc n)
         = Some (replicate n LIST_SUCCESS @ [LIST_INDEX_OUT_OF_RANGE_ERROR],
                 \<lparr>it_index = -1, it_element = NULL\<rparr>)"
    unfolding create n
    by (subst list_iterator_nexts.simps(2)) (simp add: first del: list_iterator_nexts.simps)
qed

lemma linked_list_iterator_nexts_inside:
  "k < length chain
     \<Longrightarrow> linked_list_iterator_nexts l \<lparr>lit_index = i, lit_node = chain\<rparr> k
         = (replicate k LIST_SUCCESS, \<lparr>lit_index = i + int k, lit_node = drop k chain\<rparr>)"
proof (induction k arbitrary: i chain)
  case 0
  then show ?case by simp
next
  case (Suc k)
  then obtain node rest where chain: "chain = node # rest" and rest: "k < length rest"
    by (cases chain) auto
  from rest have "rest \<noteq> []" by auto
  then have step: "linked_list_iterator_next l \<lparr>lit_index = i, lit_node = chain\<rparr>
      = (LIST_SUCCESS, \<lparr>lit_index = i + 1, lit_node = rest\<rparr>)"
    by (simp add: linked_list_iterator_next_def chain)
  have "i + 1 + int k = i + int (Suc k)" by simp
  with Suc.IH[OF rest, of "i + 1"] show ?case
    by (subst linked_list_iterator_nexts.simps(2))
       (simp add: step[unfolded chain] chain del: linked_list_iterator_nexts.simps)
qed

lemma linked_list_iterator_nexts_to_end:
  "length chain = Suc k
     \<Longrightarrow> linked_list_iterator_nexts l \<lparr>lit_index = i, lit_node = chain\<rparr> (Suc k)
         = (replicate k LIST_SUCCESS @ [LIST_INDEX_OUT_OF_RANGE_ERROR],
            \<lparr>lit_index = -1, lit_node = []\<rparr>)"
proof (induction k arbitrary: i chain)
  case 0
  then obtain node where "chain = [node]" by (cases chain) auto
  then show ?case by (simp add: linked_list_iterator_next_def)
next
  case (Suc k)
  then obtain node rest where chain: "chain = node # rest" and rest: "length rest = Suc k"
    by (cases chain) auto
  from rest have "rest \<noteq> []" by auto
  then have step: "linked_list_iterator_next l \<lparr>lit_index = i, lit_node = chain\<rparr>
      = (LIST_SUCCESS, \<lparr>lit_index = i + 1, lit_node = rest\<rparr>)"
    by (simp add: linked_list_iterator_next_def chain)
  from Suc.IH[OF rest, of "i + 1"] show ?case
    by (subst linked_list_iterator_nexts.simps(2))
       (simp add: step[unfolded chain] chain del: linked_list_iterator_nexts.simps)
qed

lemma linked_list_iterator_visits_all:
  assumes "ll_head l \<noteq> []"
  shows "k < length (ll_head l)
         \<Longrightarrow> linked_list_iterator_nexts l (snd (linked_list_iterator_create l)) (Suc k)
             = (replicate (Suc k) LIST_SUCCESS, \<lparr>lit_index = int k, lit_node = drop k (ll_head l)\<rparr>)"
    and "linked_list_iterator_nexts l (snd (linked_list_iterator_create l)) (Suc (length (ll_head l)))
         = (replicate (length (ll_head l)) LIST_SUCCESS @ [LIST_INDEX_OUT_OF_RANGE_ERROR],
            \<lparr>lit_index = -1, lit_node = []\<rparr>)"
proof -
  have first: "linked_list_iterator_next l \<lparr>lit_index = -1, lit_node = []\<rparr>
      = (LIST_SUCCESS, \<lparr>lit_index = 0, lit_node = ll_head l\<rparr>)"
    by (simp add: linked_list_iterator_next_def)
  have create: "snd (linked_list_iterator_create l) = \<lparr>lit_index = -1, lit_node = []\<rparr>"
    by (simp add: linked_list_iterator_create_def)
  show "linked_list_iterator_nexts l (snd (linked_list_iterator_create l)) (Suc k)
      = (replicate (Suc k) LIST_SUCCESS, \<lparr>lit_index = int k, lit_node = drop k (ll_head l)\<rparr>)"
    if "k < length (ll_head l)"
    using linked_list_iterator_nexts_inside[OF that, of l 0] unfolding create
    by (subst linked_list_iterator_nexts.simps(2))
       (simp add: first del: linked_list_iterator_nexts.simps)
  from assms obtain m where n: "length (ll_head l) = Suc m" by (cases "ll_head l") auto
  from linked_list_iterator_nexts_to_end[OF n, of l 0] show
    "linked_list_iterator_nexts l (snd (linked_list_iterator_create l)) (Suc (length (ll_head l)))
      = (replicate (length (ll_head l)) LIST_SUCCESS @ [LIST_INDEX_OUT_OF_RANGE_ERROR],
         \<lparr>lit_index = -1, lit_node = []\<rparr>)"
    unfolding create n
    by (subst linked_list_iterator_nexts.simps(2))
       (simp add: first del: linked_list_iterator_nexts.simps)
qed

subsection \<open>C6: resizing a linked list\<close>

text \<open>
  C6 says that \<open>resize(newSize)\<close> returns success and leaves exactly \<open>newSize\<close>
  reachable nodes, the count equal to their number. Growing an empty list first
  creates a head node and then appends \<open>newSize - 0\<close> more: \<open>resize(2)\<close> leaves three
  nodes under a count of 2. Removing two or more nodes (by shrinking, or by
  \<open>resize(0)\<close>) reads \<open>node->next\<close> through the pointer that
  \<open>linked_list_node_free\<close> has just set to \<open>NULL\<close>.
\<close>

theorem linked_list_resize_miscounts:
  "linked_list_resize [] (linked_list 0 []) 2
       = Some (LIST_SUCCESS, linked_list 2 [valueless 8, valueless 8, valueless 8])
   \<and> linked_list_resize [] (linked_list 3 [elem [1], elem [2], elem [3]]) 1 = None
   \<and> linked_list_resize [] (linked_list 2 [elem [1], elem [2]]) 0 = None"
  by (simp add: linked_list_resize_def linked_list_def last_node_def link_behind_def uint64_t_of_def
      linked_list_node_create_def linked_list_node_get_def sizeof_NULL_def sizeof_void_ptr_def
      valueless_def numeral_2_eq_2)

text \<open>
  Shrinking by one node returns success, and leaves \<open>tail\<close> on the node it has cut
  off: \<open>linked_list_append\<close> then links the new node behind that node. The count is
  2 and the chain from \<open>head\<close> has one node.
\<close>

lemma linked_list_append_after_shrinking:
  "linked_list_resize [] (linked_list 2 [elem [1], elem [2]]) 1
       = Some (LIST_SUCCESS, (linked_list 1 [elem [1]])\<lparr>ll_tail := TAIL_DETACHED (elem [2])\<rparr>)
   \<and> linked_list_append [] ((linked_list 1 [elem [1]])\<lparr>ll_tail := TAIL_DETACHED (elem [2])\<rparr>)
         (Some [3]) 1
       = Some (LIST_SUCCESS, (linked_list 2 [elem [1]])\<lparr>ll_tail := TAIL_DETACHED (elem [3])\<rparr>)"
  by (simp add: linked_list_resize_def linked_list_append_def linked_list_def last_node_def
      link_behind_def uint64_t_of_def linked_list_node_create_def linked_list_node_get_def
      memcpy_def elem_def)

subsection \<open>C7: joining two lists\<close>

text \<open>
  C7 says that the join of \<open>a\<close> and \<open>b\<close> has count \<open>a.count + b.count\<close> and, for the
  array list, exactly that capacity. \<open>list_join\<close> asks \<open>list_create\<close> for the sum as
  capacity and then sets the count to the capacity it got; for two empty lists the
  sum is 0, \<open>list_create\<close> substitutes the default capacity, and the join has count 8
  over eight \<open>NULL\<close> slots.
\<close>

theorem list_join_of_empty_lists:
  "list_join (memory_of [] []) (array_list 0 (replicate 8 NULL)) (array_list 0 (replicate 8 NULL))
     = Some ((LIST_SUCCESS, Some (array_list 8 (replicate 8 NULL))), memory_of [] [])"
  by (simp add: list_join_def list_create_def allocate_def memory_of_def array_list_def
      DEFAULT_LIST_CAPACITY_def join_copy.simps)

subsection \<open>C10: removing and popping an empty slot\<close>

text \<open>
  C10 says that \<open>remove(index)\<close> and \<open>pop(index)\<close> on an empty slot between count
  and capacity return \<open>InvalidParamsError\<close> and change nothing. \<open>list_remove\<close> does.
  \<open>list_pop\<close> clones the slot first, and \<open>list_element_clone\<close> reads
  \<open>element->size\<close> through the \<open>NULL\<close> pointer before \<open>list_element_free\<close> is reached.
\<close>

theorem list_pop_empty_slot_faults:
  "list_remove (array_list 1 [Ptr 0, NULL]) 1
       = Some (LIST_INVALID_PARAMS_ERROR, array_list 1 [Ptr 0, NULL])
   \<and> list_pop (memory_of [] [elem [1]]) (array_list 1 [Ptr 0, NULL]) 1 = None"
  by (simp add: list_remove_def list_pop_def list_element_free_def list_element_clone_def
      is_NULL_def allocate_def element_at_def item_def memory_of_def array_list_def)

text \<open>The part of C10 about \<open>list_remove\<close>, for every list and every empty slot.\<close>

lemma list_remove_empty_slot:
  assumes "0 \<le> index" and "index < l_capacity l" and "item (l_items l) index = Some NULL"
  shows "list_remove l index = Some (LIST_INVALID_PARAMS_ERROR, l)"
  using assms by (simp add: list_remove_def list_element_free_def is_NULL_def)

text \<open>
  \<open>list_pop\<close> on an empty slot inside the capacity never returns
  \<open>LIST_INVALID_PARAMS_ERROR\<close>: it faults, unless the allocation of the clone fails
  first.
\<close>

lemma list_pop_empty_slot:
  assumes "0 \<le> index" and "index < l_capacity l" and "item (l_items l) index = Some NULL"
  shows "map_option fst (list_pop m l index) = None
         \<or> map_option fst (list_pop m l index) = Some ((LIST_ALLOCATION_FAILURE, None), l)"
  using assms
  by (auto simp: list_pop_def list_element_clone_def element_at_def split: prod.splits bool.splits)

subsection \<open>C9: insert at the count and append\<close>

text \<open>
  C9 says that \<open>insert(count, value, size)\<close> and \<open>append(value, size)\<close> give the same
  list and the same result code. They do while memory lasts. When the element cannot
  be allocated, \<open>list_append\<close> returns \<open>LIST_ALLOCATION_FAILURE\<close> and leaves the list
  alone; \<open>list_insert\<close> drops the result of \<open>list_element_create\<close>, counts one element
  more over a slot it did not fill and returns \<open>LIST_SUCCESS\<close>.
\<close>

theorem list_insert_ignores_allocation_failure:
  "list_append (memory_of [False] []) (array_list 0 [NULL, NULL]) (Some [1]) 1
       = Some ((LIST_ALLOCATION_FAILURE, array_list 0 [NULL, NULL]), memory_of [] [])
   \<and> list_insert (memory_of [False] []) (array_list 0 [NULL, NULL]) 0 (Some [1]) 1
       = Some ((LIST_SUCCESS, array_list 1 [NULL, NULL]), memory_of [] [])"
  by (simp add: list_append_def list_insert_def grow_if_full_def list_element_create_def
      allocate_def memory_of_def array_list_def shift_right.simps)

text \<open>
  Where no allocation fails the two agree: on the array list inserting at the
  count is appending, doubling included, and on a linked list whose chain is empty
  when its count is 0 it is appending whatever the allocator does.
\<close>

lemma shift_right_none: "i < index \<Longrightarrow> shift_right items i index = Some items"
  by (simp add: shift_right.simps[of items i index])

lemma list_realloc_capacity_doubling:
  assumes "list_realloc_capacity m l (l_capacity l * 2) = Some ((r, l1), m1)"
  shows "r = LIST_SUCCESS \<Longrightarrow> l_size l1 = l_size l"
    and "m_outcomes m = [] \<Longrightarrow> m_outcomes m1 = []"
  using assms
  by (auto simp: list_realloc_capacity_def allocate_def Let_def bind_eq_Some_conv
      split: if_splits prod.splits bool.splits)

lemma list_insert_at_count_is_append:
  assumes "0 \<le> l_size l" and "m_outcomes m = []"
  shows "list_insert m l (l_size l) v n = list_append m l v n"
proof (cases "grow_if_full m l")
  case None
  with assms show ?thesis by (simp add: list_insert_def list_append_def)
next
  case (Some g)
  obtain r l1 m1 where g: "g = ((r, l1), m1)" by (metis surj_pair)
  show ?thesis
  proof (cases "r = LIST_SUCCESS")
    case False
    with assms Some g show ?thesis by (simp add: list_insert_def list_append_def)
  next
    case True
    from Some g True assms(2) have size: "l_size l1 = l_size l" and lasting: "m_outcomes m1 = []"
      by (auto simp: grow_if_full_def dest: list_realloc_capacity_doubling split: if_splits)
    obtain element m2 where created: "list_element_create m1 v n = ((LIST_SUCCESS, Some element), m2)"
      using lasting by (cases v) (simp_all add: list_element_create_def allocate_def new_element_def)
    from assms Some g True size created show ?thesis
      by (simp add: list_insert_def list_append_def shift_right_none)
  qed
qed

lemma linked_list_insert_at_count_is_append:
  assumes "0 \<le> ll_size l" and "ll_size l = 0 \<longrightarrow> ll_head l = []"
  shows "linked_list_insert a l (ll_size l) v n = linked_list_append a l v n"
proof -
  obtain r node a1 where c: "linked_list_node_create a v n = ((r, node), a1)"
    by (metis surj_pair)
  with assms show ?thesis
    by (cases r; cases node) (auto simp: linked_list_insert_def linked_list_append_def)
qed

subsection \<open>C4: the bounds check of remove and pop\<close>

lemma list_element_clone_results:
  "list_element_clone m p = Some ((r, out), m') \<Longrightarrow> r = LIST_SUCCESS \<or> r = LIST_ALLOCATION_FAILURE"
  by (auto simp: list_element_clone_def new_element_def bind_eq_Some_conv
      split: prod.splits bool.splits option.splits)

lemma list_element_free_results:
  "list_element_free p = Some (r, slot) \<Longrightarrow> r = LIST_INVALID_PARAMS_ERROR"
  by (auto simp: list_element_free_def bind_eq_Some_conv split: if_splits)

text \<open>
  C4: on a non-\<open>NULL\<close> array list, \<open>remove(index)\<close> and \<open>pop(index)\<close> return
  \<open>IndexOutOfRange\<close> exactly when \<open>index < 0\<close> or \<open>index \<ge> capacity\<close>; an index
  with \<open>count \<le> index < capacity\<close> passes the check. The result code of either
  function is read off where it returns; where it faults it returns no code.
\<close>

theorem list_remove_pop_bounds_check:
  "(map_option fst (list_remove l index) = Some LIST_INDEX_OUT_OF_RANGE_ERROR)
       = (index < 0 \<or> index \<ge> l_capacity l)
   \<and> (map_option (fst \<circ> fst \<circ> fst) (list_pop m l index) = Some LIST_INDEX_OUT_OF_RANGE_ERROR)
       = (index < 0 \<or> index \<ge> l_capacity l)
   \<and> (0 \<le> l_size l \<and> l_size l \<le> index \<and> index < l_capacity l \<longrightarrow>
        map_option fst (list_remove l index) \<noteq> Some LIST_INDEX_OUT_OF_RANGE_ERROR
        \<and> map_option (fst \<circ> fst \<circ> fst) (list_pop m l index) \<noteq> Some LIST_INDEX_OUT_OF_RANGE_ERROR)"
proof -
  have remove: "(map_option fst (list_remove l index) = Some LIST_INDEX_OUT_OF_RANGE_ERROR)
      = (index < 0 \<or> index \<ge> l_capacity l)"
  proof (cases "index < 0 \<or> index \<ge> l_capacity l")
    case True
    then show ?thesis by (auto simp: list_remove_def)
  next
    case False
    have "r \<noteq> LIST_INDEX_OUT_OF_RANGE_ERROR" if "list_remove l index = Some (r, l')" for r l'
      using that False
      by (auto simp: list_remove_def bind_eq_Some_conv dest: list_element_free_results
          split: if_splits)
    with False show ?thesis by (cases "list_remove l index") auto
  qed
  have pop: "(map_option (fst \<circ> fst \<circ> fst) (list_pop m l index) = Some LIST_INDEX_OUT_OF_RANGE_ERROR)
       = (index < 0 \<or> index \<ge> l_capacity l)"
  proof (cases "index < 0 \<or> index \<ge> l_capacity l")
    case True
    then show ?thesis by (auto simp: list_pop_def)
  next
    case False
    have "r \<noteq> LIST_INDEX_OUT_OF_RANGE_ERROR"
      if "list_pop m l index = Some (((r, out), l'), m')" for r out l' m'
      using that False
      by (auto simp: list_pop_def bind_eq_Some_conv
          dest: list_element_free_results list_element_clone_results split: if_splits)
    with False show ?thesis by (cases "list_pop m l index") auto
  qed
  from remove pop show ?thesis by auto
qed

theorem list_remove_pop_bounds_check_witness:
  "0 \<le> l_size (array_list 1 [Ptr 0, NULL])
   \<and> l_size (array_list 1 [Ptr 0, NULL]) \<le> 1
   \<and> 1 < l_capacity (array_list 1 [Ptr 0, NULL])
   \<and> map_option fst (list_remove (array_list 1 [Ptr 0, NULL]) 1)
       \<noteq> Some LIST_INDEX_OUT_OF_RANGE_ERROR
   \<and> map_option (fst \<circ> fst \<circ> fst)
         (list_pop (memory_of [] [elem [1]]) (array_list 1 [Ptr 0, NULL]) 1)
       \<noteq> Some LIST_INDEX_OUT_OF_RANGE_ERROR
   \<and> map_option fst (list_remove (array_list 1 [Ptr 0, NULL]) 2)
       = Some LIST_INDEX_OUT_OF_RANGE_ERROR"
  using list_remove_pop_bounds_check
          [of "array_list 1 [Ptr 0, NULL]" 1 "memory_of [] [elem [1]]"]
    list_remove_pop_bounds_check [of "array_list 1 [Ptr 0, NULL]" 2 "memory_of [] [elem [1]]"]
  by (simp add: array_list_def)

subsection \<open>C5: an index outside the valid domain\<close>

text \<open>
  C5 says that every operation that takes an index answers an index outside its
  domain with \<open>IndexOutOfRange\<close> and no other code. \<open>list_find_first\<close> answers with
  \<open>LIST_INVALID_PARAMS_ERROR\<close>, the code its header documents for an invalid start
  index; its sibling \<open>list_find_last\<close> answers with \<open>LIST_INDEX_OUT_OF_RANGE_ERROR\<close>.
\<close>

theorem list_find_first_start_out_of_range:
  "list_find_first (memory_of [] [elem [7]]) (array_list 1 [Ptr 0, NULL]) 5 (Some [7]) 1
     = Some (LIST_INVALID_PARAMS_ERROR, -1)
   \<and> list_find_last (memory_of [] [elem [7]]) (array_list 1 [Ptr 0, NULL]) 5 (Some [7]) 1
     = Some (LIST_INDEX_OUT_OF_RANGE_ERROR, -1)"
  by (simp add: list_find_first_def list_find_last_def array_list_def)

lemma list_index_checks:
  "index < 0 \<or> index > l_size l \<Longrightarrow>
     list_insert m l index v n = Some ((LIST_INDEX_OUT_OF_RANGE_ERROR, l), m)"
  "index < 0 \<or> index \<ge> l_size l \<Longrightarrow>
     list_get m l index = Some ((LIST_INDEX_OUT_OF_RANGE_ERROR, None), m)"
  "index < 0 \<or> index \<ge> l_size l \<Longrightarrow>
     list_set m l index v n = Some ((LIST_INDEX_OUT_OF_RANGE_ERROR, l), m)"
  "index < 0 \<or> index \<ge> l_capacity l \<Longrightarrow> list_remove l index = Some (LIST_INDEX_OUT_OF_RANGE_ERROR, l)"
  "index < 0 \<or> index \<ge> l_capacity l \<Longrightarrow>
     list_pop m l index = Some (((LIST_INDEX_OUT_OF_RANGE_ERROR, None), l), m)"
  "index < 0 \<or> index \<ge> l_size l \<Longrightarrow>
     list_find_first m l index v n = Some (LIST_INVALID_PARAMS_ERROR, -1)"
  "index < 0 \<or> index \<ge> l_size l \<Longrightarrow>
     list_find_last m l index v n = Some (LIST_INDEX_OUT_OF_RANGE_ERROR, -1)"
  "index < 0 \<or> index \<ge> l_size l \<or> index2 < 0 \<or> index2 \<ge> l_size l \<Longrightarrow>
     list_swap l index index2 = Some (LIST_INDEX_OUT_OF_RANGE_ERROR, l)"
  by (auto simp: list_insert_def list_get_def list_set_def list_remove_def list_pop_def
      list_find_first_def list_find_last_def list_swap_def)

lemma linked_list_index_checks:
  "index < 0 \<or> index > ll_size ll \<Longrightarrow>
     linked_list_insert a ll index v n = Some (LIST_INDEX_OUT_OF_RANGE_ERROR, ll)"
  "index < 0 \<or> index \<ge> ll_size ll \<Longrightarrow>
     linked_list_get a ll index = Some (LIST_INDEX_OUT_OF_RANGE_ERROR, None)"
  "index < 0 \<or> index \<ge> ll_size ll \<Longrightarrow>
     linked_list_set a ll index v n = Some (LIST_INDEX_OUT_OF_RANGE_ERROR, ll)"
  "uindex \<ge> uint64_t_of (ll_size ll) \<Longrightarrow>
     linked_list_remove ll uindex = Some (LIST_INDEX_OUT_OF_RANGE_ERROR, ll)"
  "uindex \<ge> uint64_t_of (ll_size ll) \<Longrightarrow>
     linked_list_pop a ll uindex = Some ((LIST_INDEX_OUT_OF_RANGE_ERROR, None), ll)"
  "index < 0 \<or> index \<ge> ll_size ll \<Longrightarrow>
     linked_list_find_first ll index v n = (LIST_INDEX_OUT_OF_RANGE_ERROR, None)"
  "index < 0 \<or> index \<ge> ll_size ll \<Longrightarrow>
     linked_list_find_last ll index v n = (LIST_INDEX_OUT_OF_RANGE_ERROR, None)"
  "index < 0 \<or> index \<ge> ll_size ll \<or> index2 < 0 \<or> index2 \<ge> ll_size ll \<Longrightarrow>
     linked_list_swap ll index index2 = Some (LIST_INDEX_OUT_OF_RANGE_ERROR, ll)"
  by (auto simp: linked_list_insert_def linked_list_get_def linked_list_set_def
      linked_list_remove_def linked_list_pop_def linked_list_find_first_def
      linked_list_find_last_def linked_list_swap_def)

lemma uint64_t_of_count: "0 \<le> x \<Longrightarrow> x < 2 ^ 63 \<Longrightarrow> int (uint64_t_of x) = x"
  by (simp add: uint64_t_of_def)

text \<open>
  C5 as the code has it. With a non-\<open>NULL\<close> handle, an index outside the domain of
  the operation (\<open>[0, count]\<close> for insert; \<open>[0, capacity)\<close> for the array list's
  remove and pop; \<open>[0, count)\<close> for the others, for both indices of swap) makes the
  operation return \<open>IndexOutOfRange\<close>, or \<open>InvalidParamsError\<close> in the case of the
  array list's \<open>find_first\<close>, and leaves the container, and the memory, as it was.
  The searches and gets do not return a container; the indices of the linked list's
  remove and pop are unsigned.
\<close>

theorem index_outside_domain:
  "(index < 0 \<or> index > l_size l \<longrightarrow>
      list_insert m l index v n = Some ((LIST_INDEX_OUT_OF_RANGE_ERROR, l), m))
   \<and> (index < 0 \<or> index \<ge> l_size l \<longrightarrow>
      list_get m l index = Some ((LIST_INDEX_OUT_OF_RANGE_ERROR, None), m)
      \<and> list_set m l index v n = Some ((LIST_INDEX_OUT_OF_RANGE_ERROR, l), m)
      \<and> list_find_first m l index v n = Some (LIST_INVALID_PARAMS_ERROR, -1)
      \<and> list_find_last m l index v n = Some (LIST_INDEX_OUT_OF_RANGE_ERROR, -1)
      \<and> list_swap l index index2 = Some (LIST_INDEX_OUT_OF_RANGE_ERROR, l)
      \<and> list_swap l index2 index = Some (LIST_INDEX_OUT_OF_RANGE_ERROR, l))
   \<and> (index < 0 \<or> index \<ge> l_capacity l \<longrightarrow>
      list_remove l index = Some (LIST_INDEX_OUT_OF_RANGE_ERROR, l)
      \<and> list_pop m l index = Some (((LIST_INDEX_OUT_OF_RANGE_ERROR, None), l), m))
   \<and> (index < 0 \<or> index > ll_size ll \<longrightarrow>
      linked_list_insert a ll index v n = Some (LIST_INDEX_OUT_OF_RANGE_ERROR, ll))
   \<and> (index < 0 \<or> index \<ge> ll_size ll \<longrightarrow>
      linked_list_get a ll index = Some (LIST_INDEX_OUT_OF_RANGE_ERROR, None)
      \<and> linked_list_set a ll index v n = Some (LIST_INDEX_OUT_OF_RANGE_ERROR, ll)
      \<and> linked_list_find_first ll index v n = (LIST_INDEX_OUT_OF_RANGE_ERROR, None)
      \<and> linked_list_find_last ll index v n = (LIST_INDEX_OUT_OF_RANGE_ERROR, None)
      \<and> linked_list_swap ll index index2 = Some (LIST_INDEX_OUT_OF_RANGE_ERROR, ll)
      \<and> linked_list_swap ll index2 index = Some (LIST_INDEX_OUT_OF_RANGE_ERROR, ll))
   \<and> (0 \<le> ll_size ll \<and> ll_size ll < 2 ^ 63 \<and> int uindex \<ge> ll_size ll \<longrightarrow>
      linked_list_remove ll uindex = Some (LIST_INDEX_OUT_OF_RANGE_ERROR, ll)
      \<and> linked_list_pop a ll uindex = Some ((LIST_INDEX_OUT_OF_RANGE_ERROR, None), ll))"
proof -
  have unsigned: "uindex \<ge> uint64_t_of (ll_size ll)"
    if "0 \<le> ll_size ll" "ll_size ll < 2 ^ 63" "int uindex \<ge> ll_size ll"
    using that uint64_t_of_count[of "ll_size ll"] by linarith
  have swaps: "list_swap l index index2 = Some (LIST_INDEX_OUT_OF_RANGE_ERROR, l)"
    "list_swap l index2 index = Some (LIST_INDEX_OUT_OF_RANGE_ERROR, l)"
    if "index < 0 \<or> index \<ge> l_size l"
    using that by (auto simp: list_swap_def)
  have ll_swaps: "linked_list_swap ll index index2 = Some (LIST_INDEX_OUT_OF_RANGE_ERROR, ll)"
    "linked_list_swap ll index2 index = Some (LIST_INDEX_OUT_OF_RANGE_ERROR, ll)"
    if "index < 0 \<or> index \<ge> ll_size ll"
    using that by (auto simp: linked_list_swap_def)
  show ?thesis
    by (intro conjI impI)
      (simp_all add: list_index_checks(1-7) linked_list_index_checks(1-7) unsigned swaps ll_swaps)
qed

theorem index_outside_domain_witness:
  "(5 < 0 \<or> 5 > l_size (array_list 1 [Ptr 0, NULL]))
   \<and> list_insert (memory_of [] [elem [7]]) (array_list 1 [Ptr 0, NULL]) 5 (Some [7]) 1
       = Some ((LIST_INDEX_OUT_OF_RANGE_ERROR, array_list 1 [Ptr 0, NULL]), memory_of [] [elem [7]])
   \<and> list_get (memory_of [] [elem [7]]) (array_list 1 [Ptr 0, NULL]) 5
       = Some ((LIST_INDEX_OUT_OF_RANGE_ERROR, None), memory_of [] [elem [7]])
   \<and> list_find_first (memory_of [] [elem [7]]) (array_list 1 [Ptr 0, NULL]) 5 (Some [7]) 1
       = Some (LIST_INVALID_PARAMS_ERROR, -1)
   \<and> list_swap (array_list 1 [Ptr 0, NULL]) 0 5
       = Some (LIST_INDEX_OUT_OF_RANGE_ERROR, array_list 1 [Ptr 0, NULL])
   \<and> (5 < 0 \<or> 5 \<ge> l_capacity (array_list 1 [Ptr 0, NULL]))
   \<and> list_remove (array_list 1 [Ptr 0, NULL]) 5
       = Some (LIST_INDEX_OUT_OF_RANGE_ERROR, array_list 1 [Ptr 0, NULL])
   \<and> (5 < 0 \<or> 5 > ll_size (linked_list 1 [elem [7]]))
   \<and> linked_list_insert [] (linked_list 1 [elem [7]]) 5 (Some [7]) 1
       = Some (LIST_INDEX_OUT_OF_RANGE_ERROR, linked_list 1 [elem [7]])
   \<and> linked_list_find_first (linked_list 1 [elem [7]]) 5 (Some [7]) 1
       = (LIST_INDEX_OUT_OF_RANGE_ERROR, None)
   \<and> (0 \<le> ll_size (linked_list 1 [elem [7]]) \<and> ll_size (linked_list 1 [elem [7]]) < 2 ^ 63
        \<and> int 5 \<ge> ll_size (linked_list 1 [elem [7]]))
   \<and> linked_list_remove (linked_list 1 [elem [7]]) 5
       = Some (LIST_INDEX_OUT_OF_RANGE_ERROR, linked_list 1 [elem [7]])
   \<and> linked_list_pop [] (linked_list 1 [elem [7]]) 5
       = Some ((LIST_INDEX_OUT_OF_RANGE_ERROR, None), linked_list 1 [elem [7]])"
  using index_outside_domain [where index = 5 and l = "array_list 1 [Ptr 0, NULL]"
      and m = "memory_of [] [elem [7]]" and a = "[]" and v = "Some [7]" and n = 1
      and ?index2.0 = 0 and ll = "linked_list 1 [elem [7]]" and uindex = 5]
  by (simp add: array_list_def linked_list_def)

subsection \<open>C3: the order of elements that compare equal\<close>

text \<open>
  Two elements compare equal when the equality function returns 0 for them, called
  as the sorts call it. A sort keeps the order of equal elements when, for every
  stored element, the elements that compare equal to it come in the same order
  before and after.
\<close>

definition compare_equal :: "equality_function \<Rightarrow> list_element \<Rightarrow> list_element \<Rightarrow> bool" where
  "compare_equal eq x y = (eq (e_value x) (e_value y) (e_size x) = 0)"

definition keeps_order_of_equals ::
  "equality_function \<Rightarrow> list_element list \<Rightarrow> list_element list \<Rightarrow> bool" where
  "keeps_order_of_equals eq before after =
     list_all (\<lambda>x. filter (compare_equal eq x) after = filter (compare_equal eq x) before) before"

text \<open>
  In the chain of the linked list two elements with the same bytes are the same
  value, so the order of two such elements cannot be read off a sorted chain. An
  equality function that compares two-byte values by their first byte returns what
  \<open>memcmp\<close> returns on one-byte values, and leaves the second byte to tell the
  elements apart. A linked list with an equality function of its own:
\<close>

definition compare_first_byte :: equality_function where
  "compare_first_byte data1 data2 n =
     (case (data1, data2) of
        (Some (a # _), Some (b # _)) \<Rightarrow> int (unat a) - int (unat b)
      | _ \<Rightarrow> 0)"

definition linked_list_comparing ::
  "equality_function \<Rightarrow> int \<Rightarrow> list_element list \<Rightarrow> linked_list_t" where
  "linked_list_comparing eq n chain = (linked_list n chain)\<lparr>ll_equalityFunction := eq\<rparr>"

text \<open>
  C3 says that the default sort of both containers keeps the order of equal
  elements. \<open>merge\<close> of linked\_list.c, documented as a stable merge, keeps the
  \<open>int32_t\<close> result of the equality function in an \<open>int8_t\<close>. On the linked list
  100, 200, 50, 200, 201 (one byte each, default functions, ascending) the last merge
  compares 50 with the 200 appended fourth: \<open>memcmp\<close> returns -150, the \<open>int8_t\<close>
  reads 106, and the node of the second half is taken. The sort returns
  \<open>LIST_SUCCESS\<close> with the chain 200, 201, 50, 100, 200, in which the 200 appended
  fourth stands before the 200 appended second. With a second byte that numbers the
  elements and the equality function that compares first bytes, the same run
  shows the two: 4 comes out before 2.
\<close>

theorem linked_list_sort_reorders_equal_elements:
  "linked_list_sort (linked_list 5 [elem [100], elem [200], elem [50], elem [200], elem [201]]) True
     = (LIST_SUCCESS, linked_list 5 [elem [200], elem [201], elem [50], elem [100], elem [200]])
   \<and> linked_list_sort
         (linked_list_comparing compare_first_byte 5
            [elem [100, 1], elem [200, 2], elem [50, 3], elem [200, 4], elem [201, 5]]) True
       = (LIST_SUCCESS,
          linked_list_comparing compare_first_byte 5
            [elem [200, 4], elem [201, 5], elem [50, 3], elem [100, 1], elem [200, 2]])
   \<and> compare_equal compare_first_byte (elem [200, 2]) (elem [200, 4])
   \<and> \<not> keeps_order_of_equals compare_first_byte
         [elem [100, 1], elem [200, 2], elem [50, 3], elem [200, 4], elem [201, 5]]
         [elem [200, 4], elem [201, 5], elem [50, 3], elem [100, 1], elem [200, 2]]"
proof -
  have "linked_list_sort (linked_list 5 [elem [100], elem [200], elem [50], elem [200], elem [201]]) True
     = (LIST_SUCCESS, linked_list 5 [elem [200], elem [201], elem [50], elem [100], elem [200]])"
    by (simp add: linked_list_sort_def linked_list_default_sort_def linked_list_def last_node_def
        merge_split_def merge_def takeFromFirstHalf_def default_equals_def int8_t_of_def elem_def)
  moreover have "linked_list_sort
         (linked_list_comparing compare_first_byte 5
            [elem [100, 1], elem [200, 2], elem [50, 3], elem [200, 4], elem [201, 5]]) True
       = (LIST_SUCCESS,
          linked_list_comparing compare_first_byte 5
            [elem [200, 4], elem [201, 5], elem [50, 3], elem [100, 1], elem [200, 2]])"
    by (simp add: linked_list_sort_def linked_list_default_sort_def linked_list_comparing_def
        linked_list_def last_node_def merge_split_def merge_def takeFromFirstHalf_def
        compare_first_byte_def int8_t_of_def elem_def)
  moreover have "compare_equal compare_first_byte (elem [200, 2]) (elem [200, 4])"
    by (simp add: compare_equal_def compare_first_byte_def elem_def)
  moreover have "\<not> keeps_order_of_equals compare_first_byte
         [elem [100, 1], elem [200, 2], elem [50, 3], elem [200, 4], elem [201, 5]]
         [elem [200, 4], elem [201, 5], elem [50, 3], elem [100, 1], elem [200, 2]]"
    by (simp add: keeps_order_of_equals_def compare_equal_def compare_first_byte_def elem_def)
  ultimately show ?thesis by blast
qed

text \<open>
  The array list's default sort is a quicksort. It moves the middle element next to
  the end when it selects the pivot, and swaps across equal elements when it
  partitions: of four elements that compare equal under the default equality
  function, valueless and of the sizes 1 to 4, the second and the third change
  places.
\<close>

theorem list_sort_reorders_equal_elements:
  "list_sort (memory_of [] [valueless 1, valueless 2, valueless 3, valueless 4])
       (array_list 4 [Ptr 0, Ptr 1, Ptr 2, Ptr 3]) True
     = Some (LIST_SUCCESS, array_list 4 [Ptr 0, Ptr 2, Ptr 1, Ptr 3])
   \<and> \<not> keeps_order_of_equals default_equals
         [valueless 1, valueless 2, valueless 3, valueless 4]
         [valueless 1, valueless 3, valueless 2, valueless 4]"
proof -
  have "list_sort (memory_of [] [valueless 1, valueless 2, valueless 3, valueless 4])
       (array_list 4 [Ptr 0, Ptr 1, Ptr 2, Ptr 3]) True
     = Some (LIST_SUCCESS, array_list 4 [Ptr 0, Ptr 2, Ptr 1, Ptr 3])"
    by (simp add: list_sort_def list_default_sort_def array_list_def quicksort.simps
        list_partition_def median_of_three_def swap_if_misordered_def compare_slots_def
        partition_loop.simps item_at_def item_def set_item_def element_at_def list_swap_def
        memory_of_def valueless_def default_equals_def Let_def)
  moreover have "\<not> keeps_order_of_equals default_equals
         [valueless 1, valueless 2, valueless 3, valueless 4]
         [valueless 1, valueless 3, valueless 2, valueless 4]"
    by (simp add: keeps_order_of_equals_def compare_equal_def valueless_def default_equals_def)
  ultimately show ?thesis by blast
qed

text \<open>
  The tie-break of \<open>merge\<close> is the stable one: where the result of the equality
  function, as \<open>merge\<close> reads it through the \<open>int8_t\<close>, is a total preorder on the
  stored elements in which the elements that compare equal are those ordered both
  ways, the merge sort keeps the order of equal elements. The reordering above comes
  from the truncation alone.
\<close>

definition consistent_order :: "bool \<Rightarrow> equality_function \<Rightarrow> list_element list \<Rightarrow> bool" where
  "consistent_order ascending eq chain =
     ((\<forall>x \<in> set chain. \<forall>y \<in> set chain.
         takeFromFirstHalf ascending eq x y \<or> takeFromFirstHalf ascending eq y x)
      \<and> (\<forall>x \<in> set chain. \<forall>y \<in> set chain. \<forall>z \<in> set chain.
           takeFromFirstHalf ascending eq x y \<and> takeFromFirstHalf ascending eq y z
             \<longrightarrow> takeFromFirstHalf ascending eq x z)
      \<and> (\<forall>x \<in> set chain. \<forall>y \<in> set chain.
           compare_equal eq x y
             = (takeFromFirstHalf ascending eq x y \<and> takeFromFirstHalf ascending eq y x)))"

lemma merge_is_merge_loop: "merge xs ys ascending eq = merge_loop ascending eq xs ys"
  by (cases xs; cases ys) (simp_all add: merge_def)

lemma mset_merge_loop: "mset (merge_loop ascending eq xs ys) = mset xs + mset ys"
  by (induction ascending eq xs ys rule: merge_loop.induct) auto

lemma mset_merge_sort: "mset (merge_sort xs ascending eq) = mset xs"
proof (induction xs ascending eq rule: merge_sort.induct)
  case (3 x y zs ascending eq)
  obtain fh sh where split: "merge_split (x # y # zs) = (fh, sh)" by (cases "merge_split (x # y # zs)")
  from "3.IH"(1)[OF split[symmetric]] "3.IH"(2)[OF split[symmetric]]
  have "mset (merge_sort fh ascending eq) = mset fh" "mset (merge_sort sh ascending eq) = mset sh" by auto
  moreover from merge_split_lengths(4)[OF split] have "mset fh + mset sh = mset (x # y # zs)"
    by (metis mset_append)
  ultimately show ?case using split by (simp add: merge_is_merge_loop mset_merge_loop)
qed simp_all

lemma set_merge_loop: "set (merge_loop ascending eq xs ys) = set xs \<union> set ys"
  by (induction ascending eq xs ys rule: merge_loop.induct) auto

lemma sorted_merge_loop:
  "\<forall>x \<in> S. \<forall>y \<in> S. takeFromFirstHalf ascending eq x y \<or> takeFromFirstHalf ascending eq y x \<Longrightarrow>
   \<forall>x \<in> S. \<forall>y \<in> S. \<forall>z \<in> S.
      takeFromFirstHalf ascending eq x y \<and> takeFromFirstHalf ascending eq y z
        \<longrightarrow> takeFromFirstHalf ascending eq x z \<Longrightarrow>
   set xs \<subseteq> S \<Longrightarrow> set ys \<subseteq> S \<Longrightarrow>
   sorted_wrt (takeFromFirstHalf ascending eq) xs \<Longrightarrow>
   sorted_wrt (takeFromFirstHalf ascending eq) ys \<Longrightarrow>
   sorted_wrt (takeFromFirstHalf ascending eq) (merge_loop ascending eq xs ys)"
proof (induction ascending eq xs ys rule: merge_loop.induct)
  case (1 ascending eq secondHalf)
  from "1.prems"(6) show ?case by (simp only: merge_loop.simps)
next
  case (2 ascending eq v va)
  from "2.prems"(5) show ?case by (simp only: merge_loop.simps)
next
  case (3 ascending eq f firstHalf s secondHalf)
  let ?le = "takeFromFirstHalf ascending eq"
  note total = "3.prems"(1) and trans = "3.prems"(2)
  from "3.prems"(3,4) have fS: "f \<in> S" and sS: "s \<in> S" by simp_all
  from "3.prems"(3,4) have sub: "set firstHalf \<subseteq> S" "set secondHalf \<subseteq> S" by simp_all
  from "3.prems"(5,6) have sorted: "sorted_wrt ?le firstHalf" "sorted_wrt ?le secondHalf" by simp_all
  from "3.prems"(5) have f_first: "\<forall>z \<in> set firstHalf. ?le f z" by simp
  from "3.prems"(6) have s_second: "\<forall>z \<in> set secondHalf. ?le s z" by simp
  show ?case
  proof (cases "?le f s")
    case True
    have "?le f z" if "z \<in> set secondHalf" for z
    proof -
      from that sub s_second have "z \<in> S" "?le s z" by blast+
      with True fS sS trans show ?thesis by blast
    qed
    with f_first True have "\<forall>z \<in> set (merge_loop ascending eq firstHalf (s # secondHalf)). ?le f z"
      unfolding set_merge_loop by auto
    moreover have "sorted_wrt ?le (merge_loop ascending eq firstHalf (s # secondHalf))"
      using "3.IH"(1)[OF True total trans sub(1) "3.prems"(4) sorted(1) "3.prems"(6)] .
    ultimately have "sorted_wrt ?le (f # merge_loop ascending eq firstHalf (s # secondHalf))"
      by (simp only: sorted_wrt.simps simp_thms)
    with True show ?thesis by (simp only: merge_loop.simps if_True)
  next
    case False
    with total fS sS have sf: "?le s f" by blast
    have "?le s z" if "z \<in> set firstHalf" for z
    proof -
      from that sub f_first have "z \<in> S" "?le f z" by blast+
      with sf fS sS trans show ?thesis by blast
    qed
    with s_second sf have "\<forall>z \<in> set (merge_loop ascending eq (f # firstHalf) secondHalf). ?le s z"
      unfolding set_merge_loop by auto
    moreover have "sorted_wrt ?le (merge_loop ascending eq (f # firstHalf) secondHalf)"
      using "3.IH"(2)[OF False total trans "3.prems"(3) sub(2) "3.prems"(5) sorted(2)] .
    ultimately have "sorted_wrt ?le (s # merge_loop ascending eq (f # firstHalf) secondHalf)"
      by (simp only: sorted_wrt.simps simp_thms)
    with False show ?thesis by (simp only: merge_loop.simps if_False)
  qed
qed

lemma filter_merge_loop:
  "\<forall>x \<in> S. \<forall>y \<in> S. takeFromFirstHalf ascending eq x y \<or> takeFromFirstHalf ascending eq y x \<Longrightarrow>
   \<forall>x \<in> S. \<forall>y \<in> S. \<forall>z \<in> S.
      takeFromFirstHalf ascending eq x y \<and> takeFromFirstHalf ascending eq y z
        \<longrightarrow> takeFromFirstHalf ascending eq x z \<Longrightarrow>
   w \<in> S \<Longrightarrow> set xs \<subseteq> S \<Longrightarrow> set ys \<subseteq> S \<Longrightarrow>
   sorted_wrt (takeFromFirstHalf ascending eq) xs \<Longrightarrow>
   filter (\<lambda>y. takeFromFirstHalf ascending eq w y \<and> takeFromFirstHalf ascending eq y w)
       (merge_loop ascending eq xs ys)
     = filter (\<lambda>y. takeFromFirstHalf ascending eq w y \<and> takeFromFirstHalf ascending eq y w) xs
       @ filter (\<lambda>y. takeFromFirstHalf ascending eq w y \<and> takeFromFirstHalf ascending eq y w) ys"
proof (induction ascending eq xs ys rule: merge_loop.induct)
  case (1 ascending eq secondHalf)
  show ?case by (simp only: merge_loop.simps filter.simps append_Nil)
next
  case (2 ascending eq v va)
  show ?case by (simp only: merge_loop.simps filter.simps append_Nil2)
next
  case (3 ascending eq f firstHalf s secondHalf)
  let ?le = "takeFromFirstHalf ascending eq"
  let ?E = "\<lambda>y. ?le w y \<and> ?le y w"
  note total = "3.prems"(1) and trans = "3.prems"(2) and w = "3.prems"(3)
  from "3.prems"(4,5) have fS: "f \<in> S" and sS: "s \<in> S" by simp_all
  from "3.prems"(4,5) have sub: "set firstHalf \<subseteq> S" "set secondHalf \<subseteq> S" by simp_all
  from "3.prems"(6) have sorted: "sorted_wrt ?le firstHalf" by simp
  from "3.prems"(6) have f_first: "\<forall>z \<in> set firstHalf. ?le f z" by simp
  show ?case
  proof (cases "?le f s")
    case True
    from "3.IH"(1)[OF True total trans w sub(1) "3.prems"(5) sorted] True
    show ?thesis by simp
  next
    case False
    have ih: "filter ?E (merge_loop ascending eq (f # firstHalf) secondHalf)
        = filter ?E (f # firstHalf) @ filter ?E secondHalf"
      using "3.IH"(2)[OF False total trans w "3.prems"(4) sub(2) "3.prems"(6)] .
    show ?thesis
    proof (cases "?E s")
      case ws: True
      have "\<not> ?E a" if a: "a \<in> set (f # firstHalf)" for a
      proof
        assume wa: "?E a"
        from a "3.prems"(4) have aS: "a \<in> S" by auto
        have "?le f a"
        proof (cases "a = f")
          case True
          with total fS show ?thesis by blast
        next
          case False
          with a f_first show ?thesis by auto
        qed
        moreover from wa ws aS sS w trans have "?le a s" by blast
        ultimately have "?le f s" using fS aS sS trans by blast
        with False show False by simp
      qed
      then have "filter ?E (f # firstHalf) = []"
        by (simp only: filter_empty_conv) blast
      with ih False ws show ?thesis by simp
    next
      case nws: False
      with ih False show ?thesis by auto
    qed
  qed
qed

lemma set_merge_sort: "set (merge_sort xs ascending eq) = set xs"
  by (metis mset_merge_sort set_mset_mset)

lemma merge_sort_sorted_stable:
  "\<forall>x \<in> S. \<forall>y \<in> S. takeFromFirstHalf ascending eq x y \<or> takeFromFirstHalf ascending eq y x \<Longrightarrow>
   \<forall>x \<in> S. \<forall>y \<in> S. \<forall>z \<in> S.
      takeFromFirstHalf ascending eq x y \<and> takeFromFirstHalf ascending eq y z
        \<longrightarrow> takeFromFirstHalf ascending eq x z \<Longrightarrow>
   set xs \<subseteq> S \<Longrightarrow>
   sorted_wrt (takeFromFirstHalf ascending eq) (merge_sort xs ascending eq)
   \<and> (\<forall>w \<in> S.
        filter (\<lambda>y. takeFromFirstHalf ascending eq w y \<and> takeFromFirstHalf ascending eq y w)
            (merge_sort xs ascending eq)
          = filter (\<lambda>y. takeFromFirstHalf ascending eq w y \<and> takeFromFirstHalf ascending eq y w) xs)"
proof (induction xs ascending eq rule: merge_sort.induct)
  case (1 ascending eq)
  show ?case
    by (intro conjI ballI) (simp_all only: merge_sort.simps sorted_wrt.simps)
next
  case (2 x ascending eq)
  show ?case
    by (intro conjI ballI) (simp_all only: merge_sort.simps sorted_wrt.simps list.set ball_empty simp_thms)
next
  case (3 x y zs ascending eq)
  let ?le = "takeFromFirstHalf ascending eq"
  note total = "3.prems"(1) and trans = "3.prems"(2)
  obtain fh sh where split: "merge_split (x # y # zs) = (fh, sh)" by (cases "merge_split (x # y # zs)")
  from merge_split_lengths(4)[OF split] have app: "fh @ sh = x # y # zs" .
  with "3.prems"(3) have sub: "set fh \<subseteq> S" "set sh \<subseteq> S"
    by (metis Un_subset_iff set_append)+
  note ih1 = "3.IH"(1)[OF split[symmetric] total trans sub(1)]
  note ih2 = "3.IH"(2)[OF split[symmetric] total trans sub(2)]
  let ?a = "merge_sort fh ascending eq" and ?b = "merge_sort sh ascending eq"
  have subs: "set ?a \<subseteq> S" "set ?b \<subseteq> S" using sub by (simp_all add: set_merge_sort)
  have ms: "merge_sort (x # y # zs) ascending eq = merge_loop ascending eq ?a ?b"
    using split by (simp add: merge_is_merge_loop)
  have "sorted_wrt ?le (merge_loop ascending eq ?a ?b)"
    using sorted_merge_loop[OF total trans subs] ih1 ih2 by blast
  moreover have "filter (\<lambda>y. ?le w y \<and> ?le y w) (merge_loop ascending eq ?a ?b)
                   = filter (\<lambda>y. ?le w y \<and> ?le y w) (x # y # zs)" if w: "w \<in> S" for w
  proof -
    have "filter (\<lambda>y. ?le w y \<and> ?le y w) (merge_loop ascending eq ?a ?b)
            = filter (\<lambda>y. ?le w y \<and> ?le y w) ?a @ filter (\<lambda>y. ?le w y \<and> ?le y w) ?b"
      using filter_merge_loop[OF total trans w subs] ih1 by blast
    also have "\<dots> = filter (\<lambda>y. ?le w y \<and> ?le y w) fh @ filter (\<lambda>y. ?le w y \<and> ?le y w) sh"
      using ih1 ih2 w by simp
    also have "\<dots> = filter (\<lambda>y. ?le w y \<and> ?le y w) (x # y # zs)"
      by (metis app filter_append)
    finally show ?thesis .
  qed
  ultimately show ?case unfolding ms by blast
qed

lemma merge_sort_keeps_order_consistent:
  assumes "consistent_order ascending eq chain"
  shows "keeps_order_of_equals eq chain (merge_sort chain ascending eq)"
proof -
  let ?le = "takeFromFirstHalf ascending eq"
  from assms have total: "\<forall>x \<in> set chain. \<forall>y \<in> set chain. ?le x y \<or> ?le y x"
    and trans: "\<forall>x \<in> set chain. \<forall>y \<in> set chain. \<forall>z \<in> set chain. ?le x y \<and> ?le y z \<longrightarrow> ?le x z"
    and equal: "\<forall>x \<in> set chain. \<forall>y \<in> set chain. compare_equal eq x y = (?le x y \<and> ?le y x)"
    unfolding consistent_order_def by blast+
  from merge_sort_sorted_stable[OF total trans subset_refl]
  have stable: "\<forall>x \<in> set chain. filter (\<lambda>y. ?le x y \<and> ?le y x) (merge_sort chain ascending eq)
                   = filter (\<lambda>y. ?le x y \<and> ?le y x) chain" by blast
  have "filter (compare_equal eq x) (merge_sort chain ascending eq) = filter (compare_equal eq x) chain"
    if x: "x \<in> set chain" for x
  proof -
    have "filter (compare_equal eq x) (merge_sort chain ascending eq)
            = filter (\<lambda>y. ?le x y \<and> ?le y x) (merge_sort chain ascending eq)"
      using equal x by (intro filter_cong) (auto simp: set_merge_sort)
    also have "\<dots> = filter (\<lambda>y. ?le x y \<and> ?le y x) chain" using stable x by blast
    also have "\<dots> = filter (compare_equal eq x) chain"
      using equal x by (intro filter_cong) auto
    finally show ?thesis .
  qed
  then show ?thesis by (simp add: keeps_order_of_equals_def list_all_iff)
qed

subsection \<open>C8: the length of an element and its data buffer\<close>









subsubsection \<open>The memory of the array list\<close>






























subsubsection \<open>The linked list\<close>








































end
